theory Spec2Isabelle
  imports Main "HOL-Library.Char_ord" "HOL-Library.List_Lexorder"
begin

section \<open>Exceptions, effects and the external helpers\<close>

text \<open>
  A Python exception is a value: its class name and its message (what \<open>f"{e}"\<close> prints).
  Only subclasses of \<open>Exception\<close> are modelled; a function that may raise returns
  \<open>exn + 'a\<close>, with \<open>Inl\<close> for the exception.
\<close>

datatype exn = Exn (exn_class: string) (exn_msg: string)

text \<open>
  A Chroma metadata value is a string, an integer, a float or a boolean. Every finite
  double is a whole number of units of 2 to the power -1074, the least positive double,
  and \<open>MFloat\<close> holds that number; NaN and the infinities are left out.
\<close>

datatype mval = MStr string | MInt int | MFloat int | MBool bool

definition float_unit :: int where
  "float_unit = 2 ^ 1074"

text \<open>
  What a run does besides returning is recorded as a trace of events, in the order the
  source performs them: calls of the helpers of \<open>utils\<close> and of the agent library,
  \<open>logging.warning\<close> lines, and the Streamlit output calls.
\<close>

datatype log_msg =
    EnteringRetrieve
  | ContextDir
  | NResultsFromDeps int
  | DebugRequestedFound int nat
  | TemperatureFromContext

datatype event =
    Log log_msg
  | CallGetChromaClient string
  | CallGetOrCreate string string
  | CallQuery string int
  | CallFormat
  | CallAgentRun string
  | StChatMessage string
  | StMarkdown string
  | StPlaceholder string
  | StError string
  | StExpander string
  | StBullet mval

type_synonym 'a io = "event list \<times> (exn + 'a)"

definition ret :: "'a \<Rightarrow> 'a io" where
  "ret a = ([], Inr a)"

definition raise :: "exn \<Rightarrow> 'a io" where
  "raise e = ([], Inl e)"

definition emit :: "event \<Rightarrow> unit io" where
  "emit ev = ([ev], Inr ())"

definition call :: "event \<Rightarrow> (exn + 'a) \<Rightarrow> 'a io" where
  "call ev r = ([ev], r)"

definition bind :: "'a io \<Rightarrow> ('a \<Rightarrow> 'b io) \<Rightarrow> 'b io" where
  "bind m f =
     (case m of
        (es, Inl e) \<Rightarrow> (es, Inl e)
      | (es, Inr a) \<Rightarrow> (case f a of (es', r) \<Rightarrow> (es @ es', r)))"

text \<open>
  A Chroma metadata dictionary is an association list from keys to values; \<open>meta.get(k)\<close>
  is \<open>map_of meta k\<close>. A metadata entry of a result may itself be \<open>None\<close>.
\<close>

type_synonym 'v metadata = "(string \<times> 'v) list"

text \<open>
  A key of a result dictionary is missing, holds \<open>None\<close>, or holds a value.
  \<open>first_row\<close> is the source's \<open>d.get(key, [[]])[0]\<close>: the default \<open>[[]]\<close> for a
  missing key, \<open>TypeError\<close> on \<open>None[0]\<close>, \<open>IndexError\<close> on \<open>[][0]\<close>.
\<close>

datatype 'a field = Missing | Null | Present 'a

record query_results =
  qr_documents :: "string list list field"
  qr_metadatas :: "mval metadata option list list field"

fun first_row :: "'a list list field \<Rightarrow> exn + 'a list" where
  "first_row Missing = Inr []"
| "first_row Null = Inl (Exn ''TypeError'' ''NoneType object is not subscriptable'')"
| "first_row (Present []) = Inl (Exn ''IndexError'' ''list index out of range'')"
| "first_row (Present (r # rs)) = Inr r"

text \<open>
  The helpers imported from \<open>utils\<close> are parameters of the model: each may raise.
\<close>

record ('client, 'coll) utils =
  get_chroma_client :: "string \<Rightarrow> exn + 'client"
  get_or_create_collection :: "'client \<Rightarrow> string \<Rightarrow> string \<Rightarrow> exn + 'coll"
  query_collection :: "'coll \<Rightarrow> string \<Rightarrow> int \<Rightarrow> exn + query_results"
  format_results_as_context :: "query_results \<Rightarrow> exn + string"

section \<open>rag\_agent.py\<close>

record 'client RAGDeps =
  chroma_client :: 'client
  collection_name :: string
  embedding_model :: string
  n_results :: int

text \<open>
  The constructor the dataclass generates has four required parameters; an argument the
  call does not supply is \<open>None\<close> here, and the call then raises \<open>TypeError\<close>.
\<close>

definition RAGDeps_init ::
  "'client option \<Rightarrow> string option \<Rightarrow> string option \<Rightarrow> int option \<Rightarrow> exn + 'client RAGDeps" where
  "RAGDeps_init cc cn em nr =
     (case (cc, cn, em, nr) of
        (Some c, Some n, Some m, Some k) \<Rightarrow>
          Inr \<lparr>chroma_client = c, collection_name = n, embedding_model = m, n_results = k\<rparr>
      | _ \<Rightarrow> Inl (Exn ''TypeError'' ''RAGDeps.__init__() missing required positional argument''))"

record 'client RunContext =
  deps :: "'client RAGDeps"

text \<open>
  The tool \<open>retrieve(context, search_query)\<close>: the arguments the model supplies are the
  search query alone.
\<close>

definition retrieve ::
  "('client, 'coll) utils \<Rightarrow> 'client RunContext \<Rightarrow> string \<Rightarrow> string io" where
  "retrieve u context search_query =
     bind (emit (Log EnteringRetrieve)) (\<lambda>_.
     bind (emit (Log ContextDir)) (\<lambda>_.
     (let n_results_from_deps = n_results (deps context) in
     bind (emit (Log (NResultsFromDeps n_results_from_deps))) (\<lambda>_.
     bind (call (CallGetOrCreate (collection_name (deps context)) (embedding_model (deps context)))
            (get_or_create_collection u (chroma_client (deps context))
               (collection_name (deps context)) (embedding_model (deps context)))) (\<lambda>collection.
     bind (call (CallQuery search_query n_results_from_deps)
            (query_collection u collection search_query n_results_from_deps)) (\<lambda>query_results.
     bind ([], first_row (qr_documents query_results)) (\<lambda>docs.
     bind (emit (Log (DebugRequestedFound n_results_from_deps (length docs)))) (\<lambda>_.
     bind (emit (Log TemperatureFromContext)) (\<lambda>_.
     call CallFormat (format_results_as_context u query_results))))))))))"


text \<open>
  \<open>run_rag_agent\<close>: the parameter \<open>n_results\<close> is not handed to the constructor.
  \<open>agent_run\<close> is \<open>agent.run\<close> followed by \<open>.data\<close>.
\<close>

definition run_rag_agent ::
  "('client, 'coll) utils \<Rightarrow> (string \<Rightarrow> 'client RAGDeps \<Rightarrow> exn + string) \<Rightarrow>
   string \<Rightarrow> string \<Rightarrow> string \<Rightarrow> string \<Rightarrow> int \<Rightarrow> string io" where
  "run_rag_agent u agent_run question collection_name_arg db_directory embedding_model_arg n_results_arg =
     bind (call (CallGetChromaClient db_directory) (get_chroma_client u db_directory)) (\<lambda>client.
     bind ([], RAGDeps_init (Some client) (Some collection_name_arg) (Some embedding_model_arg) None)
       (\<lambda>deps_built.
     call (CallAgentRun question) (agent_run question deps_built)))"

section \<open>streamlit\_app.py\<close>

datatype part =
    SystemPromptPart string
  | UserPromptPart string
  | TextPart string
  | ToolCallPart string string
  | ToolReturnPart string string
  | RetryPromptPart string

datatype model_message = ModelRequest "part list" | ModelResponse "part list"

text \<open>
  \<open>st.session_state\<close>: each of the two keys the script uses is absent or holds a value.
\<close>

record 'client session_state =
  messages :: "model_message list option"
  agent_deps :: "'client RAGDeps option"

text \<open>
  What the widgets return in one run of the script: the select box, the number input
  (an integer from 1 to 20), the temperature slider and the chat input.
\<close>

record 't ui_inputs =
  selected_collection_name :: string
  n_results_to_retrieve :: int
  selected_temperature :: 't
  user_input :: "string option"

text \<open>
  The agent library and the Chroma client are parameters. A streamed run first does what
  it does before it answers (\<open>stream_events\<close>: the trace of the tool calls), then
  yields its text deltas, then either raises or ends; \<open>result.new_messages()\<close> is
  what the library reports once the stream has ended.
\<close>

record streamed_run =
  stream_events :: "event list"
  stream_deltas :: "string list"
  stream_failure :: "exn option"
  stream_new_messages :: "model_message list"

record ('client, 't) libs =
  list_collections :: "'client \<Rightarrow> exn + string list"
  run_stream ::
    "string \<Rightarrow> 'client RAGDeps \<Rightarrow> model_message list \<Rightarrow> int \<Rightarrow> 't \<Rightarrow> exn + streamed_run"

text \<open>
  How a run of the script ends: it reaches its last line, an exception leaves it,
  \<open>st.rerun()\<close> restarts it, or \<open>st.stop()\<close> halts it.
\<close>

datatype control = Completed | Raised exn | Rerun | Stopped

record 'client outcome =
  out_events :: "event list"
  out_control :: control
  out_state :: "'client session_state"

definition DB_DIR :: string where
  "DB_DIR = ''./chroma_db''"

definition EMBEDDING_MODEL :: string where
  "EMBEDDING_MODEL = ''all-MiniLM-L6-v2''"

definition get_agent_deps ::
  "('client, 'coll) utils \<Rightarrow> string \<Rightarrow> int \<Rightarrow> 'client RAGDeps io" where
  "get_agent_deps u collection_name_to_use n_results_to_use =
     bind (call (CallGetChromaClient ''./chroma_db'') (get_chroma_client u ''./chroma_db'')) (\<lambda>client.
     ([], RAGDeps_init (Some client) (Some collection_name_to_use) (Some ''all-MiniLM-L6-v2'')
            (Some n_results_to_use)))"

fun display_message_part :: "part \<Rightarrow> event list" where
  "display_message_part (UserPromptPart content) = [StChatMessage ''user'', StMarkdown content]"
| "display_message_part (TextPart content) = [StChatMessage ''assistant'', StMarkdown content]"
| "display_message_part _ = []"

fun message_parts :: "model_message \<Rightarrow> part list" where
  "message_parts (ModelRequest ps) = ps"
| "message_parts (ModelResponse ps) = ps"

text \<open>The tool calls among the messages of a conversation.\<close>

fun tool_calls_of_parts :: "part list \<Rightarrow> nat" where
  "tool_calls_of_parts [] = 0"
| "tool_calls_of_parts (ToolCallPart name args # ps) = Suc (tool_calls_of_parts ps)"
| "tool_calls_of_parts (p # ps) = tool_calls_of_parts ps"

definition tool_calls_of :: "model_message list \<Rightarrow> nat" where
  "tool_calls_of msgs = sum_list (map (\<lambda>msg. tool_calls_of_parts (message_parts msg)) msgs)"

definition display_history :: "model_message list \<Rightarrow> event list" where
  "display_history msgs = concat (map (\<lambda>msg. concat (map display_message_part (message_parts msg))) msgs)"

text \<open>The block cursor appended while streaming (U+258C, as UTF-8 bytes).\<close>

definition cursor :: string where
  "cursor = [CHR 0xE2, CHR 0x96, CHR 0x8C]"

text \<open>
  The consumer loop of \<open>main\<close> over the deltas \<open>run_agent_with_streaming\<close> yields:
  \<open>full_response += message\<close>, then the placeholder shows it with the cursor.
\<close>

fun stream_loop :: "string \<Rightarrow> string list \<Rightarrow> event list \<times> string" where
  "stream_loop full_response [] = ([], full_response)"
| "stream_loop full_response (message # rest) =
     (case stream_loop (full_response @ message) rest of
        (es, final) \<Rightarrow> (StPlaceholder (full_response @ message @ cursor) # es, final))"

text \<open>
  Lines 122 to 143 of \<open>main\<close>: the history is created when absent; when no
  dependencies are installed, or their collection name or result count is not the
  selected one, new dependencies are installed, the history is emptied and the script
  reruns. The temperature is not read here.
\<close>

definition init_messages :: "'client session_state \<Rightarrow> 'client session_state" where
  "init_messages s = (case messages s of None \<Rightarrow> s\<lparr>messages := Some []\<rparr> | Some _ \<Rightarrow> s)"

definition session_sync ::
  "('client, 'coll) utils \<Rightarrow> 't ui_inputs \<Rightarrow> 'client session_state \<Rightarrow> 'client outcome" where
  "session_sync u ui s0 =
     (let s = init_messages s0;
          current_deps_collection = map_option collection_name (agent_deps s);
          current_deps_n_results = map_option n_results (agent_deps s)
      in if agent_deps s = None
            \<or> current_deps_collection \<noteq> Some (selected_collection_name ui)
            \<or> current_deps_n_results \<noteq> Some (n_results_to_retrieve ui)
         then (case get_agent_deps u (selected_collection_name ui) (n_results_to_retrieve ui) of
                 (es, Inl e) \<Rightarrow> \<lparr>out_events = es, out_control = Raised e, out_state = s\<rparr>
               | (es, Inr d) \<Rightarrow>
                   \<lparr>out_events = es, out_control = Rerun,
                    out_state = s\<lparr>agent_deps := Some d, messages := Some []\<rparr>\<rparr>)
         else \<lparr>out_events = [], out_control = Completed, out_state = s\<rparr>)"

text \<open>
  Python on metadata values, as lines 196 to 206 use it. Truth: a string is true when it
  is not empty, a number when it is not zero. Equality and hashing, by which \<open>set\<close>
  drops an item equal to one it holds: a string equals only the same string; numbers are
  compared by value (\<open>num_of\<close>, in units of \<open>float_unit\<close>), \<open>True\<close> being 1 and
  \<open>False\<close> 0. The order in which a set is
  iterated is not specified; \<open>py_set\<close> keeps the order of insertion, and \<open>sorted\<close>
  follows at once. \<open>sorted\<close> compares with \<open><\<close>: strings by code point, numbers by
  value, and a string with a number raises \<open>TypeError\<close>, which happens for every list
  that holds both.
\<close>

fun is_str :: "mval \<Rightarrow> bool" where
  "is_str (MStr s) = True"
| "is_str v = False"

fun truthy :: "mval \<Rightarrow> bool" where
  "truthy (MStr s) = (s \<noteq> [])"
| "truthy (MInt i) = (i \<noteq> 0)"
| "truthy (MFloat n) = (n \<noteq> 0)"
| "truthy (MBool b) = b"

fun num_of :: "mval \<Rightarrow> int" where
  "num_of (MInt i) = i * float_unit"
| "num_of (MFloat n) = n"
| "num_of (MBool b) = (if b then float_unit else 0)"
| "num_of (MStr s) = 0"

fun str_of :: "mval \<Rightarrow> string" where
  "str_of (MStr s) = s"
| "str_of v = []"

definition py_eq :: "mval \<Rightarrow> mval \<Rightarrow> bool" where
  "py_eq a b = (if is_str a \<or> is_str b then a = b else num_of a = num_of b)"

fun py_set :: "mval list \<Rightarrow> mval list \<Rightarrow> mval list" where
  "py_set seen [] = seen"
| "py_set seen (x # xs) =
     (if list_ex (py_eq x) seen then py_set seen xs else py_set (seen @ [x]) xs)"

definition py_sorted :: "mval list \<Rightarrow> exn + mval list" where
  "py_sorted vs =
     (if list_ex is_str vs \<and> list_ex (\<lambda>v. \<not> is_str v) vs
      then Inl (Exn ''TypeError'' ''< not supported between instances of str and a number'')
      else if list_all is_str vs then Inr (sort_key str_of vs)
      else Inr (sort_key num_of vs))"

text \<open>
  The value of \<open>meta.get("source")\<close> the comprehension keeps: the metadata entry is
  neither \<open>None\<close> nor empty, and its source is there and true.
\<close>

definition source_of :: "mval metadata option \<Rightarrow> mval option" where
  "source_of meta =
     (case meta of
        None \<Rightarrow> None
      | Some m \<Rightarrow> (case map_of m ''source'' of
                    None \<Rightarrow> None
                  | Some url \<Rightarrow> if truthy url then Some url else None))"

definition kept_sources :: "mval metadata option list \<Rightarrow> mval list" where
  "kept_sources metadatas = List.map_filter source_of metadatas"

definition source_urls_of :: "mval metadata option list \<Rightarrow> exn + mval list" where
  "source_urls_of metadatas = py_sorted (py_set [] (kept_sources metadatas))"

text \<open>
  The body of the \<open>try\<close> of lines 179 to 214, then the whole statement with its
  handler \<open>except Exception\<close>, which shows the error and goes on. \<open>StBullet url\<close> is
  \<open>st.markdown(f"- {url}")\<close>, the value kept as it is.
\<close>

definition display_sources_body ::
  "('client, 'coll) utils \<Rightarrow> 'client session_state \<Rightarrow> string \<Rightarrow> int \<Rightarrow> unit io" where
  "display_sources_body u s user_text n =
     (case agent_deps s of
        None \<Rightarrow> raise (Exn ''AttributeError'' ''st.session_state has no attribute agent_deps'')
      | Some d \<Rightarrow>
          bind (call (CallGetOrCreate (collection_name d) (embedding_model d))
                 (get_or_create_collection u (chroma_client d) (collection_name d) (embedding_model d)))
            (\<lambda>collection.
          bind (call (CallQuery user_text n) (query_collection u collection user_text n))
            (\<lambda>query_results.
          bind ([], first_row (qr_metadatas query_results)) (\<lambda>metadatas.
          bind ([], source_urls_of metadatas) (\<lambda>source_urls.
          if source_urls \<noteq> []
          then (StExpander ''Retrieved Sources'' # map StBullet source_urls, Inr ())
          else ret ())))))"

definition display_sources ::
  "('client, 'coll) utils \<Rightarrow> 'client session_state \<Rightarrow> string \<Rightarrow> int \<Rightarrow> event list" where
  "display_sources u s user_text n =
     (case display_sources_body u s user_text n of
        (es, Inl e) \<Rightarrow> es @ [StError (''Error retrieving sources: '' @ exn_msg e)]
      | (es, Inr _) \<Rightarrow> es)"

text \<open>
  Lines 156 to 218: one turn. \<open>run_agent_with_streaming\<close> hands the session's
  dependencies and history to \<open>agent.run_stream\<close>, yields the deltas, and, once the
  stream has ended, extends the history by \<open>result.new_messages()\<close>. \<open>main\<close> shows
  the accumulated text and then the sources.
\<close>

definition chat_turn ::
  "('client, 't) libs \<Rightarrow> ('client, 'coll) utils \<Rightarrow> 't ui_inputs \<Rightarrow> 'client session_state \<Rightarrow>
   string \<Rightarrow> 'client outcome" where
  "chat_turn lib u ui s user_text =
     (let pre = [StChatMessage ''user'', StMarkdown user_text, StChatMessage ''assistant'']
      in case (agent_deps s, messages s) of
           (Some d, Some msgs) \<Rightarrow>
             (case run_stream lib user_text d msgs (n_results_to_retrieve ui) (selected_temperature ui) of
                Inl e \<Rightarrow> \<lparr>out_events = pre, out_control = Raised e, out_state = s\<rparr>
              | Inr r \<Rightarrow>
                  (case stream_loop [] (stream_deltas r) of
                     (es, full_response) \<Rightarrow>
                       (case stream_failure r of
                          Some e \<Rightarrow>
                            \<lparr>out_events = pre @ stream_events r @ es, out_control = Raised e,
                             out_state = s\<rparr>
                        | None \<Rightarrow>
                            (let s' = s\<lparr>messages := Some (msgs @ stream_new_messages r)\<rparr>
                             in \<lparr>out_events = pre @ stream_events r @ es @ [StPlaceholder full_response]
                                     @ display_sources u s' user_text (n_results_to_retrieve ui),
                                 out_control = Completed, out_state = s'\<rparr>))))
         | _ \<Rightarrow> \<lparr>out_events = pre,
                 out_control = Raised (Exn ''AttributeError'' ''st.session_state has no such attribute''),
                 out_state = s\<rparr>)"

definition main ::
  "('client, 't) libs \<Rightarrow> ('client, 'coll) utils \<Rightarrow> 't ui_inputs \<Rightarrow> 'client session_state \<Rightarrow>
   'client outcome" where
  "main lib u ui s0 =
     (let o1 = session_sync u ui s0
      in if out_control o1 \<noteq> Completed then o1
         else (let s = out_state o1;
                   shown = out_events o1 @ display_history (case messages s of None \<Rightarrow> [] | Some ms \<Rightarrow> ms)
               in case user_input ui of
                    None \<Rightarrow> \<lparr>out_events = shown, out_control = Completed, out_state = s\<rparr>
                  | Some user_text \<Rightarrow>
                      if user_text = [] then \<lparr>out_events = shown, out_control = Completed, out_state = s\<rparr>
                      else (let o2 = chat_turn lib u ui s user_text
                            in o2\<lparr>out_events := shown @ out_events o2\<rparr>)))"

text \<open>
  The script from its first line: the block of lines 82 to 90 opens the store and lists the
  collections, and stops the run when that fails or when there is no collection; only
  then does \<open>main\<close> run.
\<close>

definition app_script ::
  "('client, 't) libs \<Rightarrow> ('client, 'coll) utils \<Rightarrow> 't ui_inputs \<Rightarrow> 'client session_state \<Rightarrow>
   'client outcome" where
  "app_script lib u ui s0 =
     (case get_chroma_client u DB_DIR of
        Inl e \<Rightarrow> \<lparr>out_events = [CallGetChromaClient DB_DIR,
                                StError (''Failed to connect to ChromaDB at '' @ DB_DIR @ '': '' @ exn_msg e)],
                  out_control = Stopped, out_state = s0\<rparr>
      | Inr client \<Rightarrow>
          (case list_collections lib client of
             Inl e \<Rightarrow> \<lparr>out_events = [CallGetChromaClient DB_DIR,
                                     StError (''Failed to connect to ChromaDB at '' @ DB_DIR @ '': '' @ exn_msg e)],
                       out_control = Stopped, out_state = s0\<rparr>
           | Inr available_collections \<Rightarrow>
               if available_collections = []
               then \<lparr>out_events = [CallGetChromaClient DB_DIR,
                                    StError (''No collections found in '' @ DB_DIR
                                             @ ''. Please run insert_docs.py first.'')],
                     out_control = Stopped, out_state = s0\<rparr>
               else (let o1 = main lib u ui s0
                     in o1\<lparr>out_events := CallGetChromaClient DB_DIR # out_events o1\<rparr>)))"

section \<open>The run of the agent\<close>

text \<open>
  The agent of \<open>rag_agent.py\<close> is built from a model name, the type of its dependencies
  and a system prompt, and \<open>retrieve\<close> is the one tool registered with it; the source
  hands the library no limit on tool calls. What \<open>agent.run_stream\<close> does with them is
  the library's loop (section 4.4 of the spec): it asks the language model, given the
  conversation so far; when the model requests the tool, it calls \<open>retrieve\<close> with a run
  context that holds the dependencies the run was given and the search query of the
  request, appends request and result to the new messages, and asks again; when the
  model answers, the answer is streamed and ends the run. The language model is a
  parameter: its reply is a tool request, or the deltas of the answer with the parts the
  library records for it. Fuel bounds the recursion: \<open>None\<close> is a run that has not ended
  within the fuel.
\<close>

datatype llm_reply = ToolCall string | Final "string list" "part list"

fun agent_loop ::
  "nat \<Rightarrow> (model_message list \<Rightarrow> 't \<Rightarrow> exn + llm_reply) \<Rightarrow> ('client, 'coll) utils \<Rightarrow>
   'client RAGDeps \<Rightarrow> 't \<Rightarrow> model_message list \<Rightarrow> model_message list \<Rightarrow> event list \<Rightarrow>
   streamed_run option" where
  "agent_loop 0 llm u d t history new trace = None"
| "agent_loop (Suc fuel) llm u d t history new trace =
     (case llm (history @ new) t of
        Inl e \<Rightarrow>
          Some \<lparr>stream_events = trace, stream_deltas = [], stream_failure = Some e,
                stream_new_messages = new\<rparr>
      | Inr (Final deltas parts) \<Rightarrow>
          Some \<lparr>stream_events = trace, stream_deltas = deltas, stream_failure = None,
                stream_new_messages = new @ [ModelResponse parts]\<rparr>
      | Inr (ToolCall search_query) \<Rightarrow>
          (case retrieve u \<lparr>deps = d\<rparr> search_query of
             (es, Inl e) \<Rightarrow>
               Some \<lparr>stream_events = trace @ es, stream_deltas = [], stream_failure = Some e,
                     stream_new_messages = new\<rparr>
           | (es, Inr context_text) \<Rightarrow>
               agent_loop fuel llm u d t history
                 (new @ [ModelResponse [ToolCallPart ''retrieve'' search_query],
                         ModelRequest [ToolReturnPart ''retrieve'' context_text]])
                 (trace @ es)))"

text \<open>
  The library with that loop as its \<open>run_stream\<close>. A run still going when the fuel is
  spent is cut off with an exception, so that the turn has an end.
\<close>

definition agent_libs ::
  "nat \<Rightarrow> (model_message list \<Rightarrow> 't \<Rightarrow> exn + llm_reply) \<Rightarrow> ('client, 'coll) utils \<Rightarrow>
   ('client \<Rightarrow> exn + string list) \<Rightarrow> ('client, 't) libs" where
  "agent_libs fuel llm u lc =
     \<lparr>list_collections = lc,
      run_stream =
        (\<lambda>user_text d history k t.
           case agent_loop fuel llm u d t history [ModelRequest [UserPromptPart user_text]] [] of
             None \<Rightarrow> Inl (Exn ''TimeoutError'' ''the run did not end'')
           | Some r \<Rightarrow> Inr r)\<rparr>"

text \<open>
  A language model that requests the tool, always with the same search query, as long as
  the conversation holds fewer than \<open>target\<close> tool calls, and then answers.
\<close>

definition persistent_llm ::
  "nat \<Rightarrow> string \<Rightarrow> string list \<Rightarrow> string \<Rightarrow> model_message list \<Rightarrow> 't \<Rightarrow> exn + llm_reply" where
  "persistent_llm target search_query deltas answer conversation t =
     (if tool_calls_of conversation < target then Inr (ToolCall search_query)
      else Inr (Final deltas [TextPart answer]))"

section \<open>view\_chroma\_data\_full\_export.py\<close>

text \<open>
  \<open>export_collection_to_csv\<close> from the point where \<open>collection.get\<close> has returned
  (line 128 on): \<open>ids\<close>, \<open>documents\<close> and \<open>metadatas\<close> are the three columns of the
  result, the last two possibly \<open>None\<close>. A value of the row dictionary handed to
  \<open>csv.DictWriter\<close> is \<open>None\<close>, a string (an id or a document) or a metadata value;
  the writer leaves the cell empty for \<open>None\<close> and for a field the row lacks.
\<close>

datatype 'v pyval = PyNone | PyStr string | PyVal 'v

datatype 'v cell = Empty | Str string | Val 'v

datatype 'v csv_file = Csv (csv_header: "string list") (csv_rows: "'v cell list list")

definition header_for_empty :: "string list" where
  "header_for_empty =
     [''id'', ''document'', ''source'', ''chunk_index'', ''headers'', ''char_count'', ''word_count'']"

definition all_meta_keys :: "'v metadata option list \<Rightarrow> string list" where
  "all_meta_keys metadatas =
     concat (map (\<lambda>meta_item. case meta_item of None \<Rightarrow> [] | Some m \<Rightarrow> map fst m) metadatas)"

definition sorted_meta_keys :: "'v metadata option list option \<Rightarrow> string list" where
  "sorted_meta_keys metadatas =
     (case metadatas of
        None \<Rightarrow> []
      | Some ms \<Rightarrow> if ms = [] then [] else sort (remdups (all_meta_keys ms)))"

definition export_header :: "'v metadata option list option \<Rightarrow> string list" where
  "export_header metadatas = [''id'', ''document''] @ sorted_meta_keys metadatas"

definition export_row ::
  "string list \<Rightarrow> string option list option \<Rightarrow> 'v metadata option list option \<Rightarrow> nat \<Rightarrow>
   (string \<rightharpoonup> 'v pyval)" where
  "export_row ids documents metadatas i =
     (let document =
            (case documents of
               None \<Rightarrow> PyNone
             | Some ds \<Rightarrow>
                 if ds \<noteq> [] \<and> i < length ds
                 then (case ds ! i of None \<Rightarrow> PyNone | Some t \<Rightarrow> PyStr t)
                 else PyNone);
          row = [''id'' \<mapsto> PyStr (ids ! i), ''document'' \<mapsto> document];
          meta_for_row =
            (case metadatas of
               None \<Rightarrow> []
             | Some ms \<Rightarrow>
                 if ms \<noteq> [] \<and> i < length ms
                 then (case ms ! i of None \<Rightarrow> [] | Some m \<Rightarrow> m)
                 else [])
      in if meta_for_row \<noteq> []
         then fold (\<lambda>key r. r(key \<mapsto> (case map_of meta_for_row key of None \<Rightarrow> PyNone | Some v \<Rightarrow> PyVal v)))
                (sorted_meta_keys metadatas) row
         else row)"

definition writerow :: "string list \<Rightarrow> (string \<rightharpoonup> 'v pyval) \<Rightarrow> 'v cell list" where
  "writerow fieldnames row =
     map (\<lambda>f. case row f of
                 None \<Rightarrow> Empty
               | Some PyNone \<Rightarrow> Empty
               | Some (PyStr t) \<Rightarrow> Str t
               | Some (PyVal v) \<Rightarrow> Val v) fieldnames"

text \<open>
  The file the function writes, if any: with no ids, a header-only file when the output
  does not exist or is empty, and nothing otherwise; else the header and one row per id.
\<close>

definition export_collection_to_csv ::
  "string list \<Rightarrow> string option list option \<Rightarrow> 'v metadata option list option \<Rightarrow> bool \<Rightarrow>
   'v csv_file option" where
  "export_collection_to_csv ids documents metadatas output_has_content =
     (if ids = []
      then (if \<not> output_has_content then Some (Csv header_for_empty []) else None)
      else Some (Csv (export_header metadatas)
                  (map (\<lambda>i. writerow (export_header metadatas) (export_row ids documents metadatas i))
                     [0..<length ids])))"

section \<open>The retrieval engine of utils.py\<close>

datatype failure =
    StoreUnavailable
  | EmbeddingFailure
  | QueryFailure
  | AgentUnavailable
  | ToolLoopExceeded

record ('vec, 'v) item =
  item_id :: string
  item_document :: string
  item_embedding :: 'vec
  item_metadata :: "'v metadata"

record ('vec, 'v) collection =
  coll_name :: string
  coll_embed :: "string \<Rightarrow> 'vec option"
  coll_index_ok :: bool
  coll_items :: "('vec, 'v) item list"

record ('v, 'd) retrieval_result =
  res_id :: string
  res_document :: string
  res_metadata :: "'v metadata"
  res_distance :: 'd

text \<open>
  Modelled from the spec: \<open>query_collection\<close> of \<open>utils.py\<close>, which is not among the
  source files. Section 4.2: \<open>query(collectionHandle, queryText, k)\<close> embeds the query
  text with the collection's embedding function and searches the stored vectors for the
  nearest ones; it returns min(k, item count) results, ranked ascending by distance
  (section 3); it fails with \<open>EmbeddingFailure\<close> when the embedding step errors and
  with \<open>QueryFailure\<close> for a search-layer error. The distance is the provider's, so it
  is a parameter; ties keep insertion order.
\<close>

definition query ::
  "('vec \<Rightarrow> 'vec \<Rightarrow> 'd::linorder) \<Rightarrow> ('vec, 'v) collection \<Rightarrow> string \<Rightarrow> int \<Rightarrow>
   failure + ('v, 'd) retrieval_result list" where
  "query dist c queryText k =
     (case coll_embed c queryText of
        None \<Rightarrow> Inl EmbeddingFailure
      | Some qv \<Rightarrow>
          if \<not> coll_index_ok c then Inl QueryFailure
          else Inr (take (nat k)
                 (map (\<lambda>it. \<lparr>res_id = item_id it, res_document = item_document it,
                              res_metadata = item_metadata it,
                              res_distance = dist qv (item_embedding it)\<rparr>)
                    (sort_key (\<lambda>it. dist qv (item_embedding it)) (coll_items c)))))"

section \<open>Reading a trace\<close>

text \<open>
  The source identifiers a trace shows under the expander; the result counts of the
  queries, the questions of the agent runs, and the records of \<open>logging.warning\<close>.
\<close>

fun bullets :: "event list \<Rightarrow> mval list" where
  "bullets [] = []"
| "bullets (StBullet url # es) = url # bullets es"
| "bullets (e # es) = []"

fun shown_sources :: "event list \<Rightarrow> mval list" where
  "shown_sources [] = []"
| "shown_sources (StExpander label # es) = bullets es"
| "shown_sources (e # es) = shown_sources es"

fun query_ks :: "event list \<Rightarrow> int list" where
  "query_ks [] = []"
| "query_ks (CallQuery q k # es) = k # query_ks es"
| "query_ks (e # es) = query_ks es"

fun agent_runs :: "event list \<Rightarrow> string list" where
  "agent_runs [] = []"
| "agent_runs (CallAgentRun q # es) = q # agent_runs es"
| "agent_runs (e # es) = agent_runs es"

text \<open>
  The events of a tool call (log records and calls of the helpers), as opposed to what
  the page shows.
\<close>

fun tool_event :: "event \<Rightarrow> bool" where
  "tool_event (Log m) = True"
| "tool_event (CallGetOrCreate name model) = True"
| "tool_event (CallQuery q k) = True"
| "tool_event CallFormat = True"
| "tool_event e = False"


section \<open>Concrete environments\<close>

text \<open>
  A store that opens at every path but the empty one; a query with five results of
  which three carry a source; a query whose results carry an integer and a string as
  sources; a streamed run without tool calls; a language model that requests the tool
  twice before it answers. The temperature is counted in hundredths.
\<close>

definition demo_results :: query_results where
  "demo_results =
     \<lparr>qr_documents = Present [[''d1'', ''d2'', ''d3'', ''d4'', ''d5'']],
      qr_metadatas = Present [[Some [(''source'', MStr ''b.md'')], Some [(''source'', MStr ''a.md'')], None,
                               Some [(''source'', MStr ''b.md'')], Some [(''source'', MStr [])]]]\<rparr>"

definition demo_utils :: "(string, string) utils" where
  "demo_utils =
     \<lparr>get_chroma_client =
        (\<lambda>path. if path = [] then Inl (Exn ''FileNotFoundError'' ''No such file or directory'')
                 else Inr path),
      get_or_create_collection = (\<lambda>client name model. Inr name),
      query_collection = (\<lambda>coll text k. Inr demo_results),
      format_results_as_context = (\<lambda>r. Inr ''context'')\<rparr>"

definition failing_query_utils :: "(string, string) utils" where
  "failing_query_utils =
     demo_utils\<lparr>query_collection := (\<lambda>coll text k. Inl (Exn ''RuntimeError'' ''embedding failed''))\<rparr>"

definition mixed_results :: query_results where
  "mixed_results =
     \<lparr>qr_documents = Present [[''d1'', ''d2'']],
      qr_metadatas = Present [[Some [(''source'', MInt 5)], Some [(''source'', MStr ''a.md'')]]]\<rparr>"

definition mixed_utils :: "(string, string) utils" where
  "mixed_utils = demo_utils\<lparr>query_collection := (\<lambda>coll text k. Inr mixed_results)\<rparr>"

definition demo_new_messages :: "model_message list" where
  "demo_new_messages = [ModelRequest [UserPromptPart ''q''], ModelResponse [TextPart ''Hello'']]"

definition demo_run :: streamed_run where
  "demo_run =
     \<lparr>stream_events = [], stream_deltas = [''Hel'', ''lo''], stream_failure = None,
      stream_new_messages = demo_new_messages\<rparr>"

definition demo_list_collections :: "string \<Rightarrow> exn + string list" where
  "demo_list_collections client = Inr [''docs'', ''notes'']"

definition demo_libs :: "(string, int) libs" where
  "demo_libs =
     \<lparr>list_collections = demo_list_collections,
      run_stream = (\<lambda>text d history k t. Inr demo_run)\<rparr>"

definition asks_twice :: "model_message list \<Rightarrow> int \<Rightarrow> exn + llm_reply" where
  "asks_twice = persistent_llm 2 ''what is crawling'' [''Hel'', ''lo''] ''Hello''"

definition asking_libs :: "(string, int) libs" where
  "asking_libs = agent_libs 5 asks_twice demo_utils demo_list_collections"

definition asked_twice :: "model_message list" where
  "asked_twice =
     [ModelRequest [UserPromptPart ''earlier''], ModelRequest [UserPromptPart ''q''],
      ModelResponse [ToolCallPart ''retrieve'' ''what is crawling''],
      ModelRequest [ToolReturnPart ''retrieve'' ''context''],
      ModelResponse [ToolCallPart ''retrieve'' ''what is crawling''],
      ModelRequest [ToolReturnPart ''retrieve'' ''context''],
      ModelResponse [TextPart ''Hello'']]"

definition asked_twice_run :: streamed_run where
  "asked_twice_run =
     \<lparr>stream_events =
        [Log EnteringRetrieve, Log ContextDir, Log (NResultsFromDeps 5),
         CallGetOrCreate ''docs'' ''all-MiniLM-L6-v2'', CallQuery ''what is crawling'' 5,
         Log (DebugRequestedFound 5 5), Log TemperatureFromContext, CallFormat,
         Log EnteringRetrieve, Log ContextDir, Log (NResultsFromDeps 5),
         CallGetOrCreate ''docs'' ''all-MiniLM-L6-v2'', CallQuery ''what is crawling'' 5,
         Log (DebugRequestedFound 5 5), Log TemperatureFromContext, CallFormat],
      stream_deltas = [''Hel'', ''lo''], stream_failure = None,
      stream_new_messages = tl asked_twice\<rparr>"

definition demo_metadatas :: "mval metadata option list" where
  "demo_metadatas =
     [Some [(''source'', MStr ''b.md'')], Some [(''source'', MStr ''a.md'')], None,
      Some [(''source'', MStr ''b.md'')], Some [(''source'', MStr [])]]"

definition mixed_metadatas :: "mval metadata option list" where
  "mixed_metadatas = [Some [(''source'', MInt 5)], Some [(''source'', MStr ''a.md'')]]"

definition mixed_libs :: "(string, int) libs" where
  "mixed_libs = agent_libs 5 asks_twice mixed_utils demo_list_collections"


definition demo_deps :: "string RAGDeps" where
  "demo_deps =
     \<lparr>chroma_client = ''./chroma_db'', collection_name = ''docs'',
      embedding_model = ''all-MiniLM-L6-v2'', n_results = 5\<rparr>"

definition demo_state :: "string session_state" where
  "demo_state = \<lparr>messages = Some [ModelRequest [UserPromptPart ''earlier'']], agent_deps = Some demo_deps\<rparr>"

definition demo_ui :: "int ui_inputs" where
  "demo_ui =
     \<lparr>selected_collection_name = ''docs'', n_results_to_retrieve = 5, selected_temperature = 70,
      user_input = None\<rparr>"

definition demo_collection :: "(int, string) collection" where
  "demo_collection =
     \<lparr>coll_name = ''docs'', coll_embed = (\<lambda>text. Some (int (length text))), coll_index_ok = True,
      coll_items =
        [\<lparr>item_id = ''i1'', item_document = ''one'', item_embedding = 9, item_metadata = [(''source'', ''a.md'')]\<rparr>,
         \<lparr>item_id = ''i2'', item_document = ''two'', item_embedding = 2, item_metadata = []\<rparr>,
         \<lparr>item_id = ''i3'', item_document = ''three'', item_embedding = 4, item_metadata = [(''source'', ''b.md'')]\<rparr>]\<rparr>"

definition demo_dist :: "int \<Rightarrow> int \<Rightarrow> int" where
  "demo_dist a b = \<bar>a - b\<bar>"

definition demo_agent_run :: "string \<Rightarrow> string RAGDeps \<Rightarrow> exn + string" where
  "demo_agent_run question d = Inr ''answer''"

definition stale_state :: "string session_state" where
  "stale_state =
     \<lparr>messages = Some [ModelRequest [UserPromptPart ''earlier'']],
      agent_deps = Some (demo_deps\<lparr>collection_name := ''notes''\<rparr>)\<rparr>"

definition demo_context :: "string RunContext" where
  "demo_context = \<lparr>deps = demo_deps\<rparr>"

definition demo_ranked :: "(string, int) retrieval_result list" where
  "demo_ranked =
     [\<lparr>res_id = ''i2'', res_document = ''two'', res_metadata = [], res_distance = 1\<rparr>,
      \<lparr>res_id = ''i3'', res_document = ''three'', res_metadata = [(''source'', ''b.md'')],
       res_distance = 1\<rparr>,
      \<lparr>res_id = ''i1'', res_document = ''one'', res_metadata = [(''source'', ''a.md'')],
       res_distance = 6\<rparr>]"

section \<open>Properties\<close>

subsection \<open>Traces and runs\<close>

lemma fst_bind: "fst (bind m f) = (case snd m of Inl e \<Rightarrow> fst m | Inr a \<Rightarrow> fst m @ fst (f a))"
  by (auto simp: bind_def split: prod.splits sum.splits)

lemma snd_bind: "snd (bind m f) = (case snd m of Inl e \<Rightarrow> Inl e | Inr a \<Rightarrow> snd (f a))"
  by (auto simp: bind_def split: prod.splits sum.splits)

lemma query_ks_append: "query_ks (xs @ ys) = query_ks xs @ query_ks ys"
  by (induction xs rule: query_ks.induct) auto

lemma agent_runs_append: "agent_runs (xs @ ys) = agent_runs xs @ agent_runs ys"
  by (induction xs rule: agent_runs.induct) auto


lemma retrieve_query_ks:
  "query_ks (fst (retrieve u context search_query)) =
     (case get_or_create_collection u (chroma_client (deps context))
             (collection_name (deps context)) (embedding_model (deps context)) of
        Inl e \<Rightarrow> []
      | Inr collection \<Rightarrow> [n_results (deps context)])"
  by (simp add: retrieve_def fst_bind snd_bind emit_def call_def query_ks_append Let_def
           split: sum.splits)

lemma retrieve_result:
  "snd (retrieve u context search_query) =
     (case get_or_create_collection u (chroma_client (deps context))
             (collection_name (deps context)) (embedding_model (deps context)) of
        Inl e \<Rightarrow> Inl e
      | Inr collection \<Rightarrow>
          (case query_collection u collection search_query (n_results (deps context)) of
             Inl e \<Rightarrow> Inl e
           | Inr query_results \<Rightarrow>
               (case first_row (qr_documents query_results) of
                  Inl e \<Rightarrow> Inl e
                | Inr docs \<Rightarrow> format_results_as_context u query_results)))"
  by (simp add: retrieve_def snd_bind emit_def call_def Let_def split: sum.splits)

lemma retrieve_ok:
  assumes "get_or_create_collection u (chroma_client d) (collection_name d) (embedding_model d) = Inr coll"
    and "query_collection u coll q (n_results d) = Inr qr"
    and "first_row (qr_documents qr) = Inr docs"
    and "format_results_as_context u qr = Inr ctx"
  shows "retrieve u \<lparr>deps = d\<rparr> q =
           ([Log EnteringRetrieve, Log ContextDir, Log (NResultsFromDeps (n_results d)),
             CallGetOrCreate (collection_name d) (embedding_model d), CallQuery q (n_results d),
             Log (DebugRequestedFound (n_results d) (length docs)), Log TemperatureFromContext,
             CallFormat],
            Inr ctx)"
  using assms by (simp add: retrieve_def bind_def emit_def call_def Let_def)

lemma retrieve_tool_events: "list_all tool_event (fst (retrieve u context q))"
  by (simp add: retrieve_def fst_bind snd_bind emit_def call_def Let_def split: sum.splits)

lemma agent_loop_tool_events:
  "agent_loop fuel llm u d t history new trace = Some r \<Longrightarrow> list_all tool_event trace \<Longrightarrow>
   list_all tool_event (stream_events r)"
proof (induction fuel arbitrary: new trace)
  case 0
  then show ?case by simp
next
  case (Suc fuel)
  show ?case
  proof (cases "llm (history @ new) t")
    case (Inl e)
    with Suc.prems show ?thesis by auto
  next
    case (Inr reply)
    show ?thesis
    proof (cases reply)
      case (Final deltas parts)
      with Inr Suc.prems show ?thesis by auto
    next
      case (ToolCall q)
      obtain es res where ret: "retrieve u \<lparr>deps = d\<rparr> q = (es, res)"
        by (cases "retrieve u \<lparr>deps = d\<rparr> q")
      have es: "list_all tool_event es"
        using retrieve_tool_events [of u "\<lparr>deps = d\<rparr>" q] ret by simp
      show ?thesis
      proof (cases res)
        case (Inl e)
        with Inr ToolCall ret Suc.prems es show ?thesis by auto
      next
        case (Inr ctx)
        with \<open>llm (history @ new) t = Inr reply\<close> ToolCall ret Suc.prems es
        show ?thesis
          by (auto intro: Suc.IH)
      qed
    qed
  qed
qed

lemma agent_loop_query_ks:
  "agent_loop fuel llm u d t history new trace = Some r \<Longrightarrow>
   set (query_ks (stream_events r)) \<subseteq> set (query_ks trace) \<union> {n_results d}"
proof (induction fuel arbitrary: new trace)
  case 0
  then show ?case by simp
next
  case (Suc fuel)
  show ?case
  proof (cases "llm (history @ new) t")
    case (Inl e)
    with Suc.prems show ?thesis by auto
  next
    case (Inr reply)
    show ?thesis
    proof (cases reply)
      case (Final deltas parts)
      with Inr Suc.prems show ?thesis by auto
    next
      case (ToolCall q)
      obtain es res where ret: "retrieve u \<lparr>deps = d\<rparr> q = (es, res)"
        by (cases "retrieve u \<lparr>deps = d\<rparr> q")
      have es: "set (query_ks es) \<subseteq> {n_results d}"
        using retrieve_query_ks [of u "\<lparr>deps = d\<rparr>" q] ret by (auto split: sum.splits)
      show ?thesis
      proof (cases res)
        case (Inl e)
        with Inr ToolCall ret Suc.prems es show ?thesis
          by (auto simp: query_ks_append)
      next
        case (Inr ctx)
        with \<open>llm (history @ new) t = Inr reply\<close> ToolCall ret Suc.prems
        have "agent_loop fuel llm u d t history
                (new @ [ModelResponse [ToolCallPart ''retrieve'' q],
                        ModelRequest [ToolReturnPart ''retrieve'' ctx]]) (trace @ es) = Some r"
          by simp
        from Suc.IH [OF this] es show ?thesis
          by (auto simp: query_ks_append)
      qed
    qed
  qed
qed

lemma stream_loop_concat: "snd (stream_loop acc ds) = acc @ concat ds"
  by (induction ds arbitrary: acc) (simp_all add: case_prod_unfold)

lemma query_ks_stream_loop: "query_ks (fst (stream_loop acc ds)) = []"
  by (induction ds arbitrary: acc) (simp_all add: case_prod_unfold)


lemma chat_turn_completed:
  assumes "agent_deps s = Some d" and "messages s = Some msgs"
    and "run_stream lib user_text d msgs (n_results_to_retrieve ui) (selected_temperature ui) = Inr r"
    and "stream_failure r = None"
  shows "chat_turn lib u ui s user_text =
           \<lparr>out_events = [StChatMessage ''user'', StMarkdown user_text, StChatMessage ''assistant'']
              @ stream_events r
              @ fst (stream_loop [] (stream_deltas r)) @ [StPlaceholder (concat (stream_deltas r))]
              @ display_sources u (s\<lparr>messages := Some (msgs @ stream_new_messages r)\<rparr>) user_text
                  (n_results_to_retrieve ui),
            out_control = Completed,
            out_state = s\<lparr>messages := Some (msgs @ stream_new_messages r)\<rparr>\<rparr>"
proof -
  obtain es full where sl: "stream_loop [] (stream_deltas r) = (es, full)"
    by (cases "stream_loop [] (stream_deltas r)")
  have "full = concat (stream_deltas r)"
    using stream_loop_concat [of "[]" "stream_deltas r"] sl by simp
  with sl assms show ?thesis
    by (simp add: chat_turn_def Let_def)
qed

lemma query_ks_map_bullet: "query_ks (map StBullet vs) = []"
  by (induction vs) auto


lemma query_ks_display_sources: "set (query_ks (display_sources u s user_text n)) \<subseteq> {n}"
  by (auto simp: display_sources_def display_sources_body_def bind_def call_def ret_def raise_def
        query_ks_append query_ks_map_bullet
        split: option.splits sum.splits prod.splits if_splits)


lemma run_stream_agent_libs:
  "run_stream (agent_libs fuel llm u lc) user_text d history k t =
     (case agent_loop fuel llm u d t history [ModelRequest [UserPromptPart user_text]] [] of
        None \<Rightarrow> Inl (Exn ''TimeoutError'' ''the run did not end'')
      | Some r \<Rightarrow> Inr r)"
  by (simp add: agent_libs_def)

lemma chat_turn_query_ks:
  "set (query_ks (out_events (chat_turn (agent_libs fuel llm u lc) u ui s user_text)))
     \<subseteq> (case agent_deps s of
           None \<Rightarrow> {}
         | Some d \<Rightarrow> {n_results d, n_results_to_retrieve ui})"
proof (cases "agent_deps s")
  case None
  then show ?thesis by (simp add: chat_turn_def)
next
  case (Some d)
  show ?thesis
  proof (cases "messages s")
    case None
    with Some show ?thesis by (simp add: chat_turn_def)
  next
    case (Some msgs)
    note msgs = this
    show ?thesis
    proof (cases "agent_loop fuel llm u d (selected_temperature ui) msgs
                    [ModelRequest [UserPromptPart user_text]] []")
      case None
      with \<open>agent_deps s = Some d\<close> msgs show ?thesis
        by (simp add: chat_turn_def run_stream_agent_libs)
    next
      case (Some r)
      from agent_loop_query_ks [OF Some]
      have tool: "set (query_ks (stream_events r)) \<subseteq> {n_results d}"
        by simp
      have run: "run_stream (agent_libs fuel llm u lc) user_text d msgs (n_results_to_retrieve ui)
                   (selected_temperature ui) = Inr r"
        using Some by (simp add: run_stream_agent_libs)
      show ?thesis
      proof (cases "stream_failure r")
        case None
        from tool
          query_ks_display_sources [of u "s\<lparr>messages := Some (msgs @ stream_new_messages r)\<rparr>"
            user_text "n_results_to_retrieve ui"]
        show ?thesis
          using \<open>agent_deps s = Some d\<close>
          by (auto simp: chat_turn_completed [OF \<open>agent_deps s = Some d\<close> msgs run None]
                query_ks_append query_ks_stream_loop)
      next
        case (Some e)
        with \<open>agent_deps s = Some d\<close> msgs run tool show ?thesis
          by (auto simp: chat_turn_def case_prod_unfold query_ks_append query_ks_stream_loop)
      qed
    qed
  qed
qed





lemma agent_loop_persistent:
  assumes "get_or_create_collection u (chroma_client d) (collection_name d) (embedding_model d) = Inr coll"
    and "query_collection u coll q (n_results d) = Inr qr"
    and "first_row (qr_documents qr) = Inr docs"
    and "format_results_as_context u qr = Inr ctx"
  shows "tool_calls_of (history @ new) + k = target \<Longrightarrow>
         agent_loop (Suc (k + spare)) (persistent_llm target q deltas answer) u d t history new trace =
           Some \<lparr>stream_events = trace @ concat (replicate k (fst (retrieve u \<lparr>deps = d\<rparr> q))),
                 stream_deltas = deltas, stream_failure = None,
                 stream_new_messages =
                   new @ concat (replicate k [ModelResponse [ToolCallPart ''retrieve'' q],
                                              ModelRequest [ToolReturnPart ''retrieve'' ctx]])
                   @ [ModelResponse [TextPart answer]]\<rparr>"
proof (induction k arbitrary: new trace)
  case 0
  then show ?case
    by (simp add: persistent_llm_def)
next
  case (Suc k)
  let ?new = "new @ [ModelResponse [ToolCallPart ''retrieve'' q], ModelRequest [ToolReturnPart ''retrieve'' ctx]]"
  have asks: "persistent_llm target q deltas answer (history @ new) t = Inr (ToolCall q)"
    using Suc.prems by (simp add: persistent_llm_def)
  have count: "tool_calls_of (history @ ?new) + k = target"
    using Suc.prems by (simp add: tool_calls_of_def)
  have "agent_loop (Suc (Suc k + spare)) (persistent_llm target q deltas answer) u d t history new trace
          = agent_loop (Suc (k + spare)) (persistent_llm target q deltas answer) u d t history ?new
              (trace @ fst (retrieve u \<lparr>deps = d\<rparr> q))"
    using asks by (simp add: retrieve_ok [OF assms])
  also have "\<dots> = Some \<lparr>stream_events = (trace @ fst (retrieve u \<lparr>deps = d\<rparr> q))
                          @ concat (replicate k (fst (retrieve u \<lparr>deps = d\<rparr> q))),
                 stream_deltas = deltas, stream_failure = None,
                 stream_new_messages =
                   ?new @ concat (replicate k [ModelResponse [ToolCallPart ''retrieve'' q],
                                              ModelRequest [ToolReturnPart ''retrieve'' ctx]])
                   @ [ModelResponse [TextPart answer]]\<rparr>"
    by (rule Suc.IH [OF count])
  finally show ?case
    by simp
qed



lemma persistent_turn:
  assumes "agent_deps s = Some d" and "messages s = Some msgs"
    and "get_or_create_collection u (chroma_client d) (collection_name d) (embedding_model d) = Inr coll"
    and "query_collection u coll q (n_results d) = Inr qr"
    and "first_row (qr_documents qr) = Inr docs"
    and "format_results_as_context u qr = Inr ctx"
  shows "chat_turn (agent_libs (Suc (n + spare)) (persistent_llm (tool_calls_of msgs + n) q deltas answer) u lc)
           u ui s user_text =
           \<lparr>out_events = [StChatMessage ''user'', StMarkdown user_text, StChatMessage ''assistant'']
              @ concat (replicate n (fst (retrieve u \<lparr>deps = d\<rparr> q)))
              @ fst (stream_loop [] deltas) @ [StPlaceholder (concat deltas)]
              @ display_sources u
                  (s\<lparr>messages := Some (msgs @ [ModelRequest [UserPromptPart user_text]]
                       @ concat (replicate n [ModelResponse [ToolCallPart ''retrieve'' q],
                                              ModelRequest [ToolReturnPart ''retrieve'' ctx]])
                       @ [ModelResponse [TextPart answer]])\<rparr>) user_text (n_results_to_retrieve ui),
            out_control = Completed,
            out_state = s\<lparr>messages := Some (msgs @ [ModelRequest [UserPromptPart user_text]]
                       @ concat (replicate n [ModelResponse [ToolCallPart ''retrieve'' q],
                                              ModelRequest [ToolReturnPart ''retrieve'' ctx]])
                       @ [ModelResponse [TextPart answer]])\<rparr>\<rparr>"
proof -
  let ?r = "\<lparr>stream_events = concat (replicate n (fst (retrieve u \<lparr>deps = d\<rparr> q))),
             stream_deltas = deltas, stream_failure = None,
             stream_new_messages =
               [ModelRequest [UserPromptPart user_text]]
               @ concat (replicate n [ModelResponse [ToolCallPart ''retrieve'' q],
                                      ModelRequest [ToolReturnPart ''retrieve'' ctx]])
               @ [ModelResponse [TextPart answer]]\<rparr>"
  have count: "tool_calls_of (msgs @ [ModelRequest [UserPromptPart user_text]]) + n
                 = tool_calls_of msgs + n"
    by (simp add: tool_calls_of_def)
  have run: "run_stream (agent_libs (Suc (n + spare)) (persistent_llm (tool_calls_of msgs + n) q deltas answer) u lc)
               user_text d msgs (n_results_to_retrieve ui) (selected_temperature ui) = Inr ?r"
    using agent_loop_persistent [OF assms(3-6) count, of spare deltas answer "selected_temperature ui" "[]"]
    by (simp add: run_stream_agent_libs)
  have ended: "stream_failure ?r = None"
    by simp
  show ?thesis
    using chat_turn_completed [OF assms(1,2) run ended, of u]
    by simp
qed

lemma asking_turn:
  "chat_turn asking_libs demo_utils demo_ui demo_state ''q'' =
     \<lparr>out_events =
        [StChatMessage ''user'', StMarkdown ''q'', StChatMessage ''assistant'',
         Log EnteringRetrieve, Log ContextDir, Log (NResultsFromDeps 5),
         CallGetOrCreate ''docs'' ''all-MiniLM-L6-v2'', CallQuery ''what is crawling'' 5,
         Log (DebugRequestedFound 5 5), Log TemperatureFromContext, CallFormat,
         Log EnteringRetrieve, Log ContextDir, Log (NResultsFromDeps 5),
         CallGetOrCreate ''docs'' ''all-MiniLM-L6-v2'', CallQuery ''what is crawling'' 5,
         Log (DebugRequestedFound 5 5), Log TemperatureFromContext, CallFormat,
         StPlaceholder (''Hel'' @ cursor), StPlaceholder (''Hello'' @ cursor), StPlaceholder ''Hello'',
         CallGetOrCreate ''docs'' ''all-MiniLM-L6-v2'', CallQuery ''q'' 5,
         StExpander ''Retrieved Sources'', StBullet (MStr ''a.md''), StBullet (MStr ''b.md'')],
      out_control = Completed,
      out_state =
        demo_state\<lparr>messages := Some
          [ModelRequest [UserPromptPart ''earlier''], ModelRequest [UserPromptPart ''q''],
           ModelResponse [ToolCallPart ''retrieve'' ''what is crawling''],
           ModelRequest [ToolReturnPart ''retrieve'' ''context''],
           ModelResponse [ToolCallPart ''retrieve'' ''what is crawling''],
           ModelRequest [ToolReturnPart ''retrieve'' ''context''],
           ModelResponse [TextPart ''Hello'']]\<rparr>\<rparr>"
proof -
  have h1: "agent_deps demo_state = Some demo_deps"
    by (simp add: demo_state_def)
  have h2: "messages demo_state = Some [ModelRequest [UserPromptPart ''earlier'']]"
    by (simp add: demo_state_def)
  have h3: "get_or_create_collection demo_utils (chroma_client demo_deps) (collection_name demo_deps)
              (embedding_model demo_deps) = Inr ''docs''"
    by (simp add: demo_utils_def demo_deps_def)
  have h4: "query_collection demo_utils ''docs'' ''what is crawling'' (n_results demo_deps) = Inr demo_results"
    by (simp add: demo_utils_def)
  have h5: "first_row (qr_documents demo_results) = Inr [''d1'', ''d2'', ''d3'', ''d4'', ''d5'']"
    by (simp add: demo_results_def)
  have h6: "format_results_as_context demo_utils demo_results = Inr ''context''"
    by (simp add: demo_utils_def)
  have libs: "asking_libs = agent_libs (Suc (2 + 2))
                (persistent_llm (tool_calls_of [ModelRequest [UserPromptPart ''earlier'']] + 2)
                   ''what is crawling'' [''Hel'', ''lo''] ''Hello'')
                demo_utils demo_list_collections"
  proof -
    have fuel: "Suc (2 + 2) = (5::nat)"
      by simp
    have target: "tool_calls_of [ModelRequest [UserPromptPart ''earlier'']] + 2 = 2"
      by (simp add: tool_calls_of_def)
    show ?thesis
      by (simp only: asking_libs_def asks_twice_def fuel target)
  qed
  have sources: "display_sources demo_utils s' ''q'' 5 =
          [CallGetOrCreate ''docs'' ''all-MiniLM-L6-v2'', CallQuery ''q'' 5,
           StExpander ''Retrieved Sources'', StBullet (MStr ''a.md''), StBullet (MStr ''b.md'')]"
    if "agent_deps s' = Some demo_deps" for s' :: "string session_state"
    using that
    by (simp add: display_sources_def display_sources_body_def demo_utils_def demo_deps_def
          demo_results_def bind_def call_def ret_def source_urls_of_def kept_sources_def
          source_of_def py_sorted_def py_eq_def)
  note turn = persistent_turn [OF h1 h2 h3 h4 h5 h6, of 2 2 "[''Hel'', ''lo'']" "''Hello''"
                demo_list_collections demo_ui "''q''"]
  have tool: "fst (retrieve demo_utils \<lparr>deps = demo_deps\<rparr> ''what is crawling'') =
          [Log EnteringRetrieve, Log ContextDir, Log (NResultsFromDeps 5),
           CallGetOrCreate ''docs'' ''all-MiniLM-L6-v2'', CallQuery ''what is crawling'' 5,
           Log (DebugRequestedFound 5 5), Log TemperatureFromContext, CallFormat]"
    unfolding retrieve_ok [OF h3 h4 h5 h6] by (simp add: demo_deps_def)
  show ?thesis
    unfolding libs turn tool
    by (simp add: sources h1 demo_ui_def numeral_2_eq_2 cursor_def)
qed

lemma asking_run:
  "agent_loop 5 asks_twice demo_utils demo_deps 70 [ModelRequest [UserPromptPart ''earlier'']]
     [ModelRequest [UserPromptPart ''q'']] [] = Some asked_twice_run"
proof -
  have h3: "get_or_create_collection demo_utils (chroma_client demo_deps) (collection_name demo_deps)
              (embedding_model demo_deps) = Inr ''docs''"
    by (simp add: demo_utils_def demo_deps_def)
  have h4: "query_collection demo_utils ''docs'' ''what is crawling'' (n_results demo_deps) = Inr demo_results"
    by (simp add: demo_utils_def)
  have h5: "first_row (qr_documents demo_results) = Inr [''d1'', ''d2'', ''d3'', ''d4'', ''d5'']"
    by (simp add: demo_results_def)
  have h6: "format_results_as_context demo_utils demo_results = Inr ''context''"
    by (simp add: demo_utils_def)
  have count: "tool_calls_of ([ModelRequest [UserPromptPart ''earlier'']] @ [ModelRequest [UserPromptPart ''q'']]) + 2 = 2"
    by (simp add: tool_calls_of_def)
  have fuel: "Suc (2 + 2) = (5::nat)"
    by simp
  have tool: "fst (retrieve demo_utils \<lparr>deps = demo_deps\<rparr> ''what is crawling'') =
          [Log EnteringRetrieve, Log ContextDir, Log (NResultsFromDeps 5),
           CallGetOrCreate ''docs'' ''all-MiniLM-L6-v2'', CallQuery ''what is crawling'' 5,
           Log (DebugRequestedFound 5 5), Log TemperatureFromContext, CallFormat]"
    unfolding retrieve_ok [OF h3 h4 h5 h6] by (simp add: demo_deps_def)
  from agent_loop_persistent [OF h3 h4 h5 h6 count, of 2 "[''Hel'', ''lo'']" "''Hello''" 70 "[]"]
  show ?thesis
    unfolding fuel asks_twice_def tool
    by (simp add: asked_twice_def asked_twice_run_def numeral_2_eq_2)
qed

subsection \<open>The retrieve tool\<close>

text \<open>
  C1. What \<open>retrieve\<close> returns is computed from the result of
  \<open>query_collection\<close> called with the search query and with the \<open>n_results\<close> field of
  the dependencies in its run context as the result count, and that is the one query it
  issues (none when the collection cannot be opened); the search query is the only
  argument the model supplies. In a run of the agent, the run context holds the
  dependencies the run was given, so every query of every tool call carries their
  \<open>n_results\<close>, whatever the model requests and however often; and a turn hands the
  run the dependencies of the session, so the queries of a turn carry the \<open>n_results\<close>
  of the session's bundle or, for the query the page itself runs for the sources, the
  selected result count.
\<close>

theorem retrieve_k_from_deps:
  "snd (retrieve u context search_query) =
     (case get_or_create_collection u (chroma_client (deps context))
             (collection_name (deps context)) (embedding_model (deps context)) of
        Inl e \<Rightarrow> Inl e
      | Inr collection \<Rightarrow>
          (case query_collection u collection search_query (n_results (deps context)) of
             Inl e \<Rightarrow> Inl e
           | Inr query_results \<Rightarrow>
               (case first_row (qr_documents query_results) of
                  Inl e \<Rightarrow> Inl e
                | Inr docs \<Rightarrow> format_results_as_context u query_results)))
   \<and> query_ks (fst (retrieve u context search_query)) =
       (case get_or_create_collection u (chroma_client (deps context))
               (collection_name (deps context)) (embedding_model (deps context)) of
          Inl e \<Rightarrow> []
        | Inr collection \<Rightarrow> [n_results (deps context)])
   \<and> (agent_loop fuel llm u d t history new [] = Some r \<longrightarrow>
         set (query_ks (stream_events r)) \<subseteq> {n_results d})
   \<and> set (query_ks (out_events (chat_turn (agent_libs fuel llm u lc) u ui s user_text)))
         \<subseteq> (case agent_deps s of
               None \<Rightarrow> {}
             | Some bundle \<Rightarrow> {n_results bundle, n_results_to_retrieve ui})"
proof (intro conjI impI)
  show "snd (retrieve u context search_query) =
     (case get_or_create_collection u (chroma_client (deps context))
             (collection_name (deps context)) (embedding_model (deps context)) of
        Inl e \<Rightarrow> Inl e
      | Inr collection \<Rightarrow>
          (case query_collection u collection search_query (n_results (deps context)) of
             Inl e \<Rightarrow> Inl e
           | Inr query_results \<Rightarrow>
               (case first_row (qr_documents query_results) of
                  Inl e \<Rightarrow> Inl e
                | Inr docs \<Rightarrow> format_results_as_context u query_results)))"
    by (rule retrieve_result)
  show "query_ks (fst (retrieve u context search_query)) =
       (case get_or_create_collection u (chroma_client (deps context))
               (collection_name (deps context)) (embedding_model (deps context)) of
          Inl e \<Rightarrow> []
        | Inr collection \<Rightarrow> [n_results (deps context)])"
    by (rule retrieve_query_ks)
  show "set (query_ks (stream_events r)) \<subseteq> {n_results d}"
    if "agent_loop fuel llm u d t history new [] = Some r"
    using agent_loop_query_ks [OF that] by simp
  show "set (query_ks (out_events (chat_turn (agent_libs fuel llm u lc) u ui s user_text)))
         \<subseteq> (case agent_deps s of
               None \<Rightarrow> {}
             | Some bundle \<Rightarrow> {n_results bundle, n_results_to_retrieve ui})"
    by (rule chat_turn_query_ks)
qed

theorem retrieve_k_from_deps_witness:
  "agent_loop 5 asks_twice demo_utils demo_deps 70 [ModelRequest [UserPromptPart ''earlier'']]
     [ModelRequest [UserPromptPart ''q'']] [] = Some asked_twice_run
   \<and> set (query_ks (stream_events asked_twice_run)) \<subseteq> {n_results demo_deps}
   \<and> query_ks (stream_events asked_twice_run) = [5, 5]
   \<and> n_results demo_deps = 5"
proof -
  from retrieve_k_from_deps [of demo_utils demo_context "''q''" 5 asks_twice demo_deps 70
      "[ModelRequest [UserPromptPart ''earlier'']]" "[ModelRequest [UserPromptPart ''q'']]" asked_twice_run
      demo_list_collections demo_ui demo_state "''q''"] asking_run
  have "set (query_ks (stream_events asked_twice_run)) \<subseteq> {n_results demo_deps}"
    by blast
  moreover have "query_ks (stream_events asked_twice_run) = [5, 5]"
    by (simp add: asked_twice_run_def)
  moreover have "n_results demo_deps = 5"
    by (simp add: demo_deps_def)
  ultimately show ?thesis
    using asking_run by simp
qed

subsection \<open>run\_rag\_agent\<close>

text \<open>
  C3, as stated, fails where the store does not open: the argument
  \<open>get_chroma_client(db_directory)\<close> is evaluated before the constructor is called, so
  its exception is the one that leaves \<open>run_rag_agent\<close>, and it is no \<open>TypeError\<close>.
\<close>

theorem run_rag_agent_store_failure:
  "run_rag_agent demo_utils demo_agent_run ''q'' ''docs'' [] ''all-MiniLM-L6-v2'' 5
     = ([CallGetChromaClient []], Inl (Exn ''FileNotFoundError'' ''No such file or directory''))"
  by (simp add: run_rag_agent_def demo_utils_def bind_def call_def)

text \<open>
  C3, amended. For every question, collection name, db directory, embedding model and
  result count, \<open>run_rag_agent\<close> returns no answer and never invokes the agent: when
  \<open>get_chroma_client\<close> returns a client, constructing \<open>RAGDeps\<close> raises \<open>TypeError\<close>
  (the required field \<open>n_results\<close> is not supplied); when \<open>get_chroma_client\<close> raises,
  that exception propagates.
\<close>

theorem run_rag_agent_never_answers:
  "(\<forall>answer. snd (run_rag_agent u agent_run question cn db em k) \<noteq> Inr answer)
   \<and> agent_runs (fst (run_rag_agent u agent_run question cn db em k)) = []
   \<and> (\<forall>client. get_chroma_client u db = Inr client \<longrightarrow>
         snd (run_rag_agent u agent_run question cn db em k)
           = Inl (Exn ''TypeError'' ''RAGDeps.__init__() missing required positional argument''))
   \<and> (\<forall>e. get_chroma_client u db = Inl e \<longrightarrow>
         snd (run_rag_agent u agent_run question cn db em k) = Inl e)"
  by (simp add: run_rag_agent_def fst_bind snd_bind call_def RAGDeps_init_def agent_runs_append
           split: sum.splits)

theorem run_rag_agent_never_answers_witness:
  "get_chroma_client demo_utils ''./chroma_db'' = Inr ''./chroma_db''
   \<and> snd (run_rag_agent demo_utils demo_agent_run ''q'' ''docs'' ''./chroma_db'' ''all-MiniLM-L6-v2'' 5)
       = Inl (Exn ''TypeError'' ''RAGDeps.__init__() missing required positional argument'')
   \<and> agent_runs (fst (run_rag_agent demo_utils demo_agent_run ''q'' ''docs'' ''./chroma_db''
                        ''all-MiniLM-L6-v2'' 5)) = []"
proof -
  have opened: "get_chroma_client demo_utils ''./chroma_db'' = Inr ''./chroma_db''"
    by (simp add: demo_utils_def)
  from run_rag_agent_never_answers
    [of demo_utils demo_agent_run "''q''" "''docs''" "''./chroma_db''" "''all-MiniLM-L6-v2''" 5]
  show ?thesis
    using opened by blast
qed

subsection \<open>Session state\<close>

lemma get_agent_deps_ok:
  "get_chroma_client u ''./chroma_db'' = Inr client \<Longrightarrow>
   get_agent_deps u cn k =
     ([CallGetChromaClient ''./chroma_db''],
      Inr \<lparr>chroma_client = client, collection_name = cn, embedding_model = ''all-MiniLM-L6-v2'',
           n_results = k\<rparr>)"
  by (simp add: get_agent_deps_def bind_def call_def RAGDeps_init_def)

lemma app_script_reaches_main:
  "out_control (app_script lib u ui s) \<noteq> Stopped \<Longrightarrow>
   \<exists>client. get_chroma_client u ''./chroma_db'' = Inr client"
  by (auto simp: app_script_def DB_DIR_def split: sum.splits if_splits)

text \<open>
  C2. In a run of the script that reaches \<open>main\<close> the store has opened
  (\<open>app_script_reaches_main\<close>). Then: if no dependencies are installed, or the selected
  collection name or the selected result count differs from the installed ones, the
  session gets a bundle built anew from the selection and an empty history, and the
  script reruns; if they agree, then whatever the temperature, the run goes on with the
  same bundle and the same history.
\<close>

theorem session_sync_select:
  assumes "get_chroma_client u ''./chroma_db'' = Inr client"
  shows "(agent_deps s = None
          \<or> map_option collection_name (agent_deps s) \<noteq> Some (selected_collection_name ui)
          \<or> map_option n_results (agent_deps s) \<noteq> Some (n_results_to_retrieve ui)
          \<longrightarrow> out_control (session_sync u ui s) = Rerun
              \<and> out_state (session_sync u ui s)
                  = \<lparr>messages = Some [],
                     agent_deps = Some \<lparr>chroma_client = client,
                                        collection_name = selected_collection_name ui,
                                        embedding_model = ''all-MiniLM-L6-v2'',
                                        n_results = n_results_to_retrieve ui\<rparr>\<rparr>)
       \<and> (agent_deps s = Some d \<and> collection_name d = selected_collection_name ui
            \<and> n_results d = n_results_to_retrieve ui
          \<longrightarrow> (\<forall>t. out_control (session_sync u (ui\<lparr>selected_temperature := t\<rparr>) s) = Completed
                   \<and> agent_deps (out_state (session_sync u (ui\<lparr>selected_temperature := t\<rparr>) s)) = Some d
                   \<and> messages (out_state (session_sync u (ui\<lparr>selected_temperature := t\<rparr>) s))
                       = Some (case messages s of None \<Rightarrow> [] | Some ms \<Rightarrow> ms)))"
proof (intro conjI impI allI)
  assume differs: "agent_deps s = None
          \<or> map_option collection_name (agent_deps s) \<noteq> Some (selected_collection_name ui)
          \<or> map_option n_results (agent_deps s) \<noteq> Some (n_results_to_retrieve ui)"
  have same_deps: "agent_deps (init_messages s) = agent_deps s"
    by (simp add: init_messages_def split: option.splits)
  from differs same_deps show "out_control (session_sync u ui s) = Rerun"
    by (auto simp: session_sync_def Let_def get_agent_deps_ok [OF assms])
  from differs same_deps show "out_state (session_sync u ui s)
                  = \<lparr>messages = Some [],
                     agent_deps = Some \<lparr>chroma_client = client,
                                        collection_name = selected_collection_name ui,
                                        embedding_model = ''all-MiniLM-L6-v2'',
                                        n_results = n_results_to_retrieve ui\<rparr>\<rparr>"
    by (auto simp: session_sync_def Let_def get_agent_deps_ok [OF assms])
next
  fix t
  assume same: "agent_deps s = Some d \<and> collection_name d = selected_collection_name ui
            \<and> n_results d = n_results_to_retrieve ui"
  have same_deps: "agent_deps (init_messages s) = agent_deps s"
    by (simp add: init_messages_def split: option.splits)
  have msgs: "messages (init_messages s) = Some (case messages s of None \<Rightarrow> [] | Some ms \<Rightarrow> ms)"
    by (simp add: init_messages_def split: option.splits)
  from same same_deps
  show "out_control (session_sync u (ui\<lparr>selected_temperature := t\<rparr>) s) = Completed"
    by (simp add: session_sync_def Let_def)
  from same same_deps
  show "agent_deps (out_state (session_sync u (ui\<lparr>selected_temperature := t\<rparr>) s)) = Some d"
    by (simp add: session_sync_def Let_def)
  from same same_deps msgs
  show "messages (out_state (session_sync u (ui\<lparr>selected_temperature := t\<rparr>) s))
          = Some (case messages s of None \<Rightarrow> [] | Some ms \<Rightarrow> ms)"
    by (simp add: session_sync_def Let_def)
qed

theorem session_sync_select_witness:
  "get_chroma_client demo_utils ''./chroma_db'' = Inr ''./chroma_db''
   \<and> out_control (session_sync demo_utils demo_ui stale_state) = Rerun
   \<and> out_state (session_sync demo_utils demo_ui stale_state)
       = \<lparr>messages = Some [], agent_deps = Some demo_deps\<rparr>
   \<and> out_control (session_sync demo_utils (demo_ui\<lparr>selected_temperature := 20\<rparr>) demo_state) = Completed
   \<and> out_state (session_sync demo_utils (demo_ui\<lparr>selected_temperature := 20\<rparr>) demo_state) = demo_state"
proof -
  have opened: "get_chroma_client demo_utils ''./chroma_db'' = Inr ''./chroma_db''"
    by (simp add: demo_utils_def)
  have stale: "out_control (session_sync demo_utils demo_ui stale_state) = Rerun
     \<and> out_state (session_sync demo_utils demo_ui stale_state)
         = \<lparr>messages = Some [], agent_deps = Some demo_deps\<rparr>"
    using session_sync_select [OF opened, of stale_state demo_ui demo_deps]
    by (simp add: stale_state_def demo_ui_def demo_deps_def)
  have kept: "out_control (session_sync demo_utils (demo_ui\<lparr>selected_temperature := 20\<rparr>) demo_state) = Completed
     \<and> agent_deps (out_state (session_sync demo_utils (demo_ui\<lparr>selected_temperature := 20\<rparr>) demo_state))
         = agent_deps demo_state
     \<and> messages (out_state (session_sync demo_utils (demo_ui\<lparr>selected_temperature := 20\<rparr>) demo_state))
         = messages demo_state"
    using session_sync_select [OF opened, of demo_state demo_ui demo_deps]
    by (simp add: demo_state_def demo_ui_def demo_deps_def)
  then have "out_state (session_sync demo_utils (demo_ui\<lparr>selected_temperature := 20\<rparr>) demo_state) = demo_state"
    by (simp add: session_state.equality)
  with opened stale kept show ?thesis
    by simp
qed

subsection \<open>The tool calls of a turn\<close>




subsection \<open>Displaying the sources\<close>

lemma display_sources_failure:
  "snd (display_sources_body u s user_text n) = Inl e \<Longrightarrow>
   display_sources u s user_text n
     = fst (display_sources_body u s user_text n) @ [StError (''Error retrieving sources: '' @ exn_msg e)]"
  by (cases "display_sources_body u s user_text n") (simp add: display_sources_def)

text \<open>
  C8. When the stream of a turn has ended and an exception is raised on the
  display-sources path (opening the collection, the query, reading its result, sorting
  the sources), the turn still completes: the last thing shown is the inline error with
  the exception's message, and the session state is the committed one, in which only the
  history has changed, extended by the new messages of the turn.
\<close>

theorem sources_failure_is_contained:
  assumes "agent_deps s = Some d" and "messages s = Some msgs"
    and "run_stream lib user_text d msgs (n_results_to_retrieve ui) (selected_temperature ui) = Inr r"
    and "stream_failure r = None"
    and "snd (display_sources_body u (s\<lparr>messages := Some (msgs @ stream_new_messages r)\<rparr>) user_text
                (n_results_to_retrieve ui)) = Inl e"
  shows "out_control (chat_turn lib u ui s user_text) = Completed
       \<and> out_state (chat_turn lib u ui s user_text) = s\<lparr>messages := Some (msgs @ stream_new_messages r)\<rparr>
       \<and> last (out_events (chat_turn lib u ui s user_text))
           = StError (''Error retrieving sources: '' @ exn_msg e)"
  using display_sources_failure [OF assms(5)]
  by (simp add: chat_turn_completed [OF assms(1-4)])

theorem sources_failure_is_contained_witness:
  "snd (display_sources_body failing_query_utils
          (demo_state\<lparr>messages := Some ([ModelRequest [UserPromptPart ''earlier'']] @ stream_new_messages demo_run)\<rparr>)
          ''q'' (n_results_to_retrieve demo_ui)) = Inl (Exn ''RuntimeError'' ''embedding failed'')
   \<and> out_control (chat_turn demo_libs failing_query_utils demo_ui demo_state ''q'') = Completed
   \<and> out_state (chat_turn demo_libs failing_query_utils demo_ui demo_state ''q'')
       = demo_state\<lparr>messages := Some ([ModelRequest [UserPromptPart ''earlier'']] @ stream_new_messages demo_run)\<rparr>
   \<and> last (out_events (chat_turn demo_libs failing_query_utils demo_ui demo_state ''q''))
       = StError (''Error retrieving sources: '' @ exn_msg (Exn ''RuntimeError'' ''embedding failed''))"
proof -
  have h1: "agent_deps demo_state = Some demo_deps"
    by (simp add: demo_state_def)
  have h2: "messages demo_state = Some [ModelRequest [UserPromptPart ''earlier'']]"
    by (simp add: demo_state_def)
  have h3: "run_stream demo_libs ''q'' demo_deps [ModelRequest [UserPromptPart ''earlier'']]
        (n_results_to_retrieve demo_ui) (selected_temperature demo_ui) = Inr demo_run"
    by (simp add: demo_libs_def)
  have h4: "stream_failure demo_run = None"
    by (simp add: demo_run_def)
  have h5: "snd (display_sources_body failing_query_utils
          (demo_state\<lparr>messages := Some ([ModelRequest [UserPromptPart ''earlier'']] @ stream_new_messages demo_run)\<rparr>)
          ''q'' (n_results_to_retrieve demo_ui)) = Inl (Exn ''RuntimeError'' ''embedding failed'')"
    by (simp add: display_sources_body_def failing_query_utils_def demo_utils_def demo_state_def
          bind_def call_def)
  from sources_failure_is_contained [OF h1 h2 h3 h4 h5] h5
  show ?thesis
    by blast
qed

lemma py_eq_refl: "py_eq x x"
  by (simp add: py_eq_def)

lemma py_eq_sym: "py_eq x y \<Longrightarrow> py_eq y x"
  by (auto simp: py_eq_def split: if_splits)

lemma py_eq_str: "is_str x \<Longrightarrow> py_eq x y \<longleftrightarrow> x = y"
  by (simp add: py_eq_def)

lemma py_eq_str2: "is_str y \<Longrightarrow> py_eq x y \<longleftrightarrow> x = y"
  by (simp add: py_eq_def)

lemma py_eq_num: "\<not> is_str x \<Longrightarrow> \<not> is_str y \<Longrightarrow> py_eq x y \<longleftrightarrow> num_of x = num_of y"
  by (simp add: py_eq_def)

lemma py_set_keeps: "set seen \<subseteq> set (py_set seen xs)"
proof (induction xs arbitrary: seen)
  case Nil
  then show ?case by simp
next
  case (Cons a xs)
  from Cons.IH [of seen] Cons.IH [of "seen @ [a]"] show ?case
    by auto
qed

lemma py_set_subset: "set (py_set seen xs) \<subseteq> set seen \<union> set xs"
proof (induction xs arbitrary: seen)
  case Nil
  then show ?case by simp
next
  case (Cons a xs)
  from Cons.IH [of seen] Cons.IH [of "seen @ [a]"] show ?case
    by auto
qed

lemma py_set_covers: "x \<in> set xs \<Longrightarrow> \<exists>y \<in> set (py_set seen xs). py_eq x y"
proof (induction xs arbitrary: seen)
  case Nil
  then show ?case by simp
next
  case (Cons a xs)
  show ?case
  proof (cases "x = a")
    case True
    show ?thesis
    proof (cases "list_ex (py_eq a) seen")
      case True
      then obtain y where "y \<in> set seen" "py_eq a y"
        by (auto simp: list_ex_iff)
      with py_set_keeps [of seen xs] \<open>x = a\<close> True show ?thesis
        by auto
    next
      case False
      have "a \<in> set (py_set (seen @ [a]) xs)"
        using py_set_keeps [of "seen @ [a]" xs] by auto
      with \<open>x = a\<close> False show ?thesis
        by (auto intro: py_eq_refl)
    qed
  next
    case False
    with Cons.prems have "x \<in> set xs"
      by simp
    from Cons.IH [OF this] show ?thesis
      by simp
  qed
qed

lemma py_set_separate:
  "distinct seen \<Longrightarrow> (\<forall>a \<in> set seen. \<forall>b \<in> set seen. py_eq a b \<longrightarrow> a = b) \<Longrightarrow>
   distinct (py_set seen xs)
   \<and> (\<forall>a \<in> set (py_set seen xs). \<forall>b \<in> set (py_set seen xs). py_eq a b \<longrightarrow> a = b)"
proof (induction xs arbitrary: seen)
  case Nil
  then show ?case by simp
next
  case (Cons x xs)
  show ?case
  proof (cases "list_ex (py_eq x) seen")
    case True
    with Cons show ?thesis by simp
  next
    case False
    then have fresh: "\<forall>y \<in> set seen. \<not> py_eq x y"
      by (simp add: list_ex_iff)
    then have "x \<notin> set seen"
      using py_eq_refl by blast
    with Cons.prems have d: "distinct (seen @ [x])"
      by simp
    have sep: "\<forall>a \<in> set (seen @ [x]). \<forall>b \<in> set (seen @ [x]). py_eq a b \<longrightarrow> a = b"
      using Cons.prems(2) fresh py_eq_sym by auto
    from Cons.IH [OF d sep] False show ?thesis
      by simp
  qed
qed

lemma kept_sources_set:
  "set (kept_sources metadatas)
     = {v. truthy v \<and> (\<exists>m. Some m \<in> set metadatas \<and> map_of m ''source'' = Some v)}"
proof -
  have filt: "set (List.map_filter f xs) = {y. \<exists>x \<in> set xs. f x = Some y}" for f :: "mval metadata option \<Rightarrow> mval option" and xs
    by (induction xs) (auto split: option.splits)
  have src: "source_of meta = Some v \<longleftrightarrow> truthy v \<and> (\<exists>m. meta = Some m \<and> map_of m ''source'' = Some v)" for meta v
    by (auto simp: source_of_def split: option.splits if_splits)
  show ?thesis
    by (auto simp: kept_sources_def filt src)
qed

lemma source_urls_strings:
  assumes "list_all is_str (kept_sources metadatas)"
  shows "\<exists>urls. source_urls_of metadatas = Inr urls \<and> set urls = set (kept_sources metadatas)
           \<and> sorted (map str_of urls) \<and> distinct urls"
proof -
  let ?K = "kept_sources metadatas"
  let ?S = "py_set [] ?K"
  have sub: "set ?S \<subseteq> set ?K"
    using py_set_subset [of "[]" ?K] by simp
  with assms have strs: "list_all is_str ?S"
    by (auto simp: list_all_iff)
  have "set ?K \<subseteq> set ?S"
  proof
    fix x assume x: "x \<in> set ?K"
    then obtain y where "y \<in> set ?S" "py_eq x y"
      using py_set_covers by blast
    moreover from x assms have "is_str x"
      by (auto simp: list_all_iff)
    ultimately show "x \<in> set ?S"
      by (simp add: py_eq_str)
  qed
  with sub have eq: "set ?S = set ?K"
    by auto
  have d: "distinct ?S"
    using py_set_separate [of "[]" ?K] by simp
  have nomix: "\<not> (list_ex is_str ?S \<and> list_ex (\<lambda>v. \<not> is_str v) ?S)"
    using strs by (auto simp: list_all_iff list_ex_iff)
  have "source_urls_of metadatas = Inr (sort_key str_of ?S)"
    using nomix strs by (auto simp: source_urls_of_def py_sorted_def)
  with eq d show ?thesis
    by simp
qed

lemma source_urls_numbers:
  assumes "list_all (\<lambda>v. \<not> is_str v) (kept_sources metadatas)"
  shows "\<exists>urls. source_urls_of metadatas = Inr urls \<and> set urls \<subseteq> set (kept_sources metadatas)
           \<and> num_of ` set urls = num_of ` set (kept_sources metadatas)
           \<and> sorted (map num_of urls) \<and> distinct (map num_of urls)"
proof -
  let ?K = "kept_sources metadatas"
  let ?S = "py_set [] ?K"
  have sub: "set ?S \<subseteq> set ?K"
    using py_set_subset [of "[]" ?K] by simp
  with assms have nums: "\<forall>v \<in> set ?S. \<not> is_str v"
    by (auto simp: list_all_iff)
  have img: "num_of ` set ?S = num_of ` set ?K"
  proof
    show "num_of ` set ?S \<subseteq> num_of ` set ?K"
      using sub by auto
    show "num_of ` set ?K \<subseteq> num_of ` set ?S"
    proof
      fix n assume "n \<in> num_of ` set ?K"
      then obtain x where x: "x \<in> set ?K" "n = num_of x"
        by auto
      then obtain y where y: "y \<in> set ?S" "py_eq x y"
        using py_set_covers by blast
      from x assms have "\<not> is_str x"
        by (auto simp: list_all_iff)
      with y nums have "num_of x = num_of y"
        by (simp add: py_eq_num)
      with x y show "n \<in> num_of ` set ?S"
        by auto
    qed
  qed
  have sep: "distinct ?S \<and> (\<forall>a \<in> set ?S. \<forall>b \<in> set ?S. py_eq a b \<longrightarrow> a = b)"
    using py_set_separate [of "[]" ?K] by simp
  have "inj_on num_of (set ?S)"
  proof (rule inj_onI)
    fix a b assume "a \<in> set ?S" "b \<in> set ?S" "num_of a = num_of b"
    with nums sep show "a = b"
      by (simp add: py_eq_num)
  qed
  with sep have d: "distinct (map num_of ?S)"
    by (simp add: distinct_map)
  have nomix: "\<not> (list_ex is_str ?S \<and> list_ex (\<lambda>v. \<not> is_str v) ?S)"
    using nums by (auto simp: list_ex_iff)
  have "source_urls_of metadatas = Inr (if list_all is_str ?S then sort_key str_of ?S else sort_key num_of ?S)"
    using nomix by (auto simp: source_urls_of_def py_sorted_def)
  moreover have "list_all is_str ?S \<Longrightarrow> ?S = []"
    using nums by (cases ?S) (auto simp: list_all_iff)
  ultimately have "source_urls_of metadatas = Inr (sort_key num_of ?S)"
    by (cases "list_all is_str ?S") auto
  moreover have "distinct (map num_of (sort_key num_of ?S))"
    using d by (metis distinct_map distinct_sort set_sort)
  ultimately show ?thesis
    using sub img by auto
qed

lemma source_urls_mixed:
  assumes "list_ex is_str (kept_sources metadatas)"
    and "list_ex (\<lambda>v. \<not> is_str v) (kept_sources metadatas)"
  shows "source_urls_of metadatas
           = Inl (Exn ''TypeError'' ''< not supported between instances of str and a number'')"
proof -
  let ?K = "kept_sources metadatas"
  let ?S = "py_set [] ?K"
  from assms(1) obtain x where x: "x \<in> set ?K" "is_str x"
    by (auto simp: list_ex_iff)
  then obtain y where "y \<in> set ?S" "py_eq x y"
    using py_set_covers by blast
  with x have s: "list_ex is_str ?S"
    by (auto simp: py_eq_str list_ex_iff)
  from assms(2) obtain z where z: "z \<in> set ?K" "\<not> is_str z"
    by (auto simp: list_ex_iff)
  then obtain w where w: "w \<in> set ?S" "py_eq z w"
    using py_set_covers by blast
  have "\<not> is_str w"
  proof
    assume "is_str w"
    with w have "z = w"
      by (simp add: py_eq_str2)
    with z \<open>is_str w\<close> show False
      by simp
  qed
  with w have n: "list_ex (\<lambda>v. \<not> is_str v) ?S"
    by (auto simp: list_ex_iff)
  from s n show ?thesis
    by (simp add: source_urls_of_def py_sorted_def)
qed

lemma shown_sources_tool_events:
  "list_all tool_event xs \<Longrightarrow> shown_sources (xs @ ys) = shown_sources ys"
proof (induction xs)
  case Nil
  then show ?case by simp
next
  case (Cons e xs)
  then show ?case by (cases e) simp_all
qed

lemma shown_sources_stream_loop:
  "shown_sources (fst (stream_loop acc ds) @ ys) = shown_sources ys"
  by (induction ds arbitrary: acc) (simp_all add: case_prod_unfold)

lemma bullets_map: "bullets (map StBullet urls) = urls"
  by (induction urls) auto

lemma display_sources_ok:
  assumes "agent_deps s = Some d"
    and "get_or_create_collection u (chroma_client d) (collection_name d) (embedding_model d) = Inr coll"
    and "query_collection u coll user_text n = Inr qr"
    and "first_row (qr_metadatas qr) = Inr metadatas"
  shows "display_sources u s user_text n =
           [CallGetOrCreate (collection_name d) (embedding_model d), CallQuery user_text n]
           @ (case source_urls_of metadatas of
                Inl e \<Rightarrow> [StError (''Error retrieving sources: '' @ exn_msg e)]
              | Inr source_urls \<Rightarrow>
                  if source_urls \<noteq> []
                  then StExpander ''Retrieved Sources'' # map StBullet source_urls
                  else [])"
  using assms
  by (simp add: display_sources_def display_sources_body_def bind_def call_def ret_def
        split: sum.splits)

lemma agent_turn_sources:
  assumes "agent_deps s = Some d" and "messages s = Some msgs"
    and "agent_loop fuel llm u d (selected_temperature ui) msgs [ModelRequest [UserPromptPart user_text]] []
           = Some r"
    and "stream_failure r = None"
    and "get_or_create_collection u (chroma_client d) (collection_name d) (embedding_model d) = Inr coll"
    and "query_collection u coll user_text (n_results_to_retrieve ui) = Inr qr"
    and "first_row (qr_metadatas qr) = Inr metadatas"
  shows "out_control (chat_turn (agent_libs fuel llm u lc) u ui s user_text) = Completed"
    and "shown_sources (out_events (chat_turn (agent_libs fuel llm u lc) u ui s user_text))
           = (case source_urls_of metadatas of Inl e \<Rightarrow> [] | Inr source_urls \<Rightarrow> source_urls)"
    and "source_urls_of metadatas = Inl e \<Longrightarrow>
         last (out_events (chat_turn (agent_libs fuel llm u lc) u ui s user_text))
           = StError (''Error retrieving sources: '' @ exn_msg e)"
proof -
  let ?s' = "s\<lparr>messages := Some (msgs @ stream_new_messages r)\<rparr>"
  have run: "run_stream (agent_libs fuel llm u lc) user_text d msgs (n_results_to_retrieve ui)
               (selected_temperature ui) = Inr r"
    using assms(3) by (simp add: run_stream_agent_libs)
  note turn = chat_turn_completed [OF assms(1,2) run assms(4), of u]
  have deps': "agent_deps ?s' = Some d"
    using assms(1) by simp
  note shown = display_sources_ok [OF deps' assms(5-7)]
  have tools: "list_all tool_event (stream_events r)"
    using agent_loop_tool_events [OF assms(3)] by simp
  show "out_control (chat_turn (agent_libs fuel llm u lc) u ui s user_text) = Completed"
    by (simp add: turn)
  show "shown_sources (out_events (chat_turn (agent_libs fuel llm u lc) u ui s user_text))
           = (case source_urls_of metadatas of Inl e \<Rightarrow> [] | Inr source_urls \<Rightarrow> source_urls)"
    by (simp add: turn shown shown_sources_tool_events [OF tools] shown_sources_stream_loop bullets_map
          split: sum.splits)
  show "last (out_events (chat_turn (agent_libs fuel llm u lc) u ui s user_text))
           = StError (''Error retrieving sources: '' @ exn_msg e)"
    if "source_urls_of metadatas = Inl e"
    using that by (simp add: turn shown)
qed

lemma mixed_run:
  "agent_loop 5 asks_twice mixed_utils demo_deps 70 [ModelRequest [UserPromptPart ''earlier'']]
     [ModelRequest [UserPromptPart ''q'']] [] =
   Some \<lparr>stream_events = concat (replicate 2 (fst (retrieve mixed_utils \<lparr>deps = demo_deps\<rparr> ''what is crawling''))),
         stream_deltas = [''Hel'', ''lo''], stream_failure = None,
         stream_new_messages = tl asked_twice\<rparr>"
proof -
  have h3: "get_or_create_collection mixed_utils (chroma_client demo_deps) (collection_name demo_deps)
              (embedding_model demo_deps) = Inr ''docs''"
    by (simp add: mixed_utils_def demo_utils_def demo_deps_def)
  have h4: "query_collection mixed_utils ''docs'' ''what is crawling'' (n_results demo_deps) = Inr mixed_results"
    by (simp add: mixed_utils_def)
  have h5: "first_row (qr_documents mixed_results) = Inr [''d1'', ''d2'']"
    by (simp add: mixed_results_def)
  have h6: "format_results_as_context mixed_utils mixed_results = Inr ''context''"
    by (simp add: mixed_utils_def demo_utils_def)
  have count: "tool_calls_of ([ModelRequest [UserPromptPart ''earlier'']] @ [ModelRequest [UserPromptPart ''q'']]) + 2 = 2"
    by (simp add: tool_calls_of_def)
  have fuel: "Suc (2 + 2) = (5::nat)"
    by simp
  from agent_loop_persistent [OF h3 h4 h5 h6 count, of 2 "[''Hel'', ''lo'']" "''Hello''" 70 "[]"]
  show ?thesis
    unfolding fuel asks_twice_def
    by (simp add: asked_twice_def numeral_2_eq_2)
qed

text \<open>
  C9, as stated, fails where the source values of the results are not all of one kind:
  with the sources 5 and \<open>a.md\<close>, \<open>sorted\<close> raises, and the completed turn shows the
  inline error and no source at all, though the results carry two sources.
\<close>

theorem turn_with_mixed_sources:
  "first_row (qr_metadatas mixed_results) = Inr mixed_metadatas
   \<and> kept_sources mixed_metadatas = [MInt 5, MStr ''a.md'']
   \<and> out_control (chat_turn mixed_libs mixed_utils demo_ui demo_state ''q'') = Completed
   \<and> shown_sources (out_events (chat_turn mixed_libs mixed_utils demo_ui demo_state ''q'')) = []
   \<and> last (out_events (chat_turn mixed_libs mixed_utils demo_ui demo_state ''q''))
       = StError ''Error retrieving sources: < not supported between instances of str and a number''"
proof -
  have h1: "agent_deps demo_state = Some demo_deps"
    by (simp add: demo_state_def)
  have h2: "messages demo_state = Some [ModelRequest [UserPromptPart ''earlier'']]"
    by (simp add: demo_state_def)
  have h3: "agent_loop 5 asks_twice mixed_utils demo_deps (selected_temperature demo_ui)
              [ModelRequest [UserPromptPart ''earlier'']] [ModelRequest [UserPromptPart ''q'']] []
            = Some \<lparr>stream_events = concat (replicate 2 (fst (retrieve mixed_utils \<lparr>deps = demo_deps\<rparr> ''what is crawling''))),
                    stream_deltas = [''Hel'', ''lo''], stream_failure = None,
                    stream_new_messages = tl asked_twice\<rparr>"
    using mixed_run by (simp add: demo_ui_def)
  have h4: "stream_failure \<lparr>stream_events = concat (replicate 2 (fst (retrieve mixed_utils \<lparr>deps = demo_deps\<rparr> ''what is crawling''))),
                    stream_deltas = [''Hel'', ''lo''], stream_failure = None,
                    stream_new_messages = tl asked_twice\<rparr> = None"
    by simp
  have h5: "get_or_create_collection mixed_utils (chroma_client demo_deps) (collection_name demo_deps)
              (embedding_model demo_deps) = Inr ''docs''"
    by (simp add: mixed_utils_def demo_utils_def demo_deps_def)
  have h6: "query_collection mixed_utils ''docs'' ''q'' (n_results_to_retrieve demo_ui) = Inr mixed_results"
    by (simp add: mixed_utils_def)
  have h7: "first_row (qr_metadatas mixed_results) = Inr mixed_metadatas"
    by (simp add: mixed_results_def mixed_metadatas_def)
  have kept: "kept_sources mixed_metadatas = [MInt 5, MStr ''a.md'']"
    by (simp add: kept_sources_def mixed_metadatas_def source_of_def)
  have err: "source_urls_of mixed_metadatas
               = Inl (Exn ''TypeError'' ''< not supported between instances of str and a number'')"
    by (rule source_urls_mixed) (simp_all add: kept)
  note facts = agent_turn_sources [OF h1 h2 h3 h4 h5 h6 h7, where lc = demo_list_collections]
  have "out_control (chat_turn mixed_libs mixed_utils demo_ui demo_state ''q'') = Completed"
    using facts(1) by (simp add: mixed_libs_def)
  moreover have "shown_sources (out_events (chat_turn mixed_libs mixed_utils demo_ui demo_state ''q'')) = []"
    using facts(2) by (simp add: mixed_libs_def err)
  moreover have "last (out_events (chat_turn mixed_libs mixed_utils demo_ui demo_state ''q''))
       = StError ''Error retrieving sources: < not supported between instances of str and a number''"
    using facts(3) [OF err] by (simp add: mixed_libs_def)
  ultimately show ?thesis
    using h7 kept by simp
qed

text \<open>
  C9, amended. The retrieval whose sources the page shows is the last of the turn: the
  query the page itself runs, once the stream has ended, with the user's text and the
  selected result count. After a turn that completes with that query returned: if the
  true source values of its results are all strings, the sources shown are exactly the
  non-empty ones, in sorted order and without duplicates; if they are all numbers, the
  sources shown are among them, one for each numeric value, in ascending order; if
  strings and numbers are mixed, sorting raises, and the turn shows the inline error and
  no source.
\<close>

theorem turn_shows_sources:
  assumes "agent_deps s = Some d" and "messages s = Some msgs"
    and "agent_loop fuel llm u d (selected_temperature ui) msgs [ModelRequest [UserPromptPart user_text]] []
           = Some r"
    and "stream_failure r = None"
    and "get_or_create_collection u (chroma_client d) (collection_name d) (embedding_model d) = Inr coll"
    and "query_collection u coll user_text (n_results_to_retrieve ui) = Inr qr"
    and "first_row (qr_metadatas qr) = Inr metadatas"
  shows "(list_all is_str (kept_sources metadatas) \<longrightarrow>
            set (shown_sources (out_events (chat_turn (agent_libs fuel llm u lc) u ui s user_text)))
              = {v. truthy v \<and> (\<exists>m. Some m \<in> set metadatas \<and> map_of m ''source'' = Some v)}
            \<and> sorted (map str_of
                 (shown_sources (out_events (chat_turn (agent_libs fuel llm u lc) u ui s user_text))))
            \<and> distinct (shown_sources (out_events (chat_turn (agent_libs fuel llm u lc) u ui s user_text))))
       \<and> (list_all (\<lambda>v. \<not> is_str v) (kept_sources metadatas) \<longrightarrow>
            set (shown_sources (out_events (chat_turn (agent_libs fuel llm u lc) u ui s user_text)))
              \<subseteq> {v. truthy v \<and> (\<exists>m. Some m \<in> set metadatas \<and> map_of m ''source'' = Some v)}
            \<and> num_of ` set (shown_sources (out_events (chat_turn (agent_libs fuel llm u lc) u ui s user_text)))
              = num_of ` {v. truthy v \<and> (\<exists>m. Some m \<in> set metadatas \<and> map_of m ''source'' = Some v)}
            \<and> sorted (map num_of
                 (shown_sources (out_events (chat_turn (agent_libs fuel llm u lc) u ui s user_text))))
            \<and> distinct (map num_of
                 (shown_sources (out_events (chat_turn (agent_libs fuel llm u lc) u ui s user_text)))))
       \<and> (list_ex is_str (kept_sources metadatas) \<and> list_ex (\<lambda>v. \<not> is_str v) (kept_sources metadatas) \<longrightarrow>
            out_control (chat_turn (agent_libs fuel llm u lc) u ui s user_text) = Completed
            \<and> shown_sources (out_events (chat_turn (agent_libs fuel llm u lc) u ui s user_text)) = []
            \<and> last (out_events (chat_turn (agent_libs fuel llm u lc) u ui s user_text))
                = StError (''Error retrieving sources: ''
                           @ ''< not supported between instances of str and a number''))"
proof (intro conjI impI)
  note shown = agent_turn_sources(2) [OF assms, of lc]
  {
    assume "list_all is_str (kept_sources metadatas)"
    from source_urls_strings [OF this] obtain urls where
      urls: "source_urls_of metadatas = Inr urls" "set urls = set (kept_sources metadatas)"
        "sorted (map str_of urls)" "distinct urls"
      by blast
    from urls show "set (shown_sources (out_events (chat_turn (agent_libs fuel llm u lc) u ui s user_text)))
              = {v. truthy v \<and> (\<exists>m. Some m \<in> set metadatas \<and> map_of m ''source'' = Some v)}"
      by (simp add: shown kept_sources_set)
    from urls show "sorted (map str_of
                 (shown_sources (out_events (chat_turn (agent_libs fuel llm u lc) u ui s user_text))))"
      by (simp add: shown)
    from urls show "distinct (shown_sources (out_events (chat_turn (agent_libs fuel llm u lc) u ui s user_text)))"
      by (simp add: shown)
  }
  {
    assume "list_all (\<lambda>v. \<not> is_str v) (kept_sources metadatas)"
    from source_urls_numbers [OF this] obtain urls where
      urls: "source_urls_of metadatas = Inr urls" "set urls \<subseteq> set (kept_sources metadatas)"
        "num_of ` set urls = num_of ` set (kept_sources metadatas)"
        "sorted (map num_of urls)" "distinct (map num_of urls)"
      by blast
    from urls show "set (shown_sources (out_events (chat_turn (agent_libs fuel llm u lc) u ui s user_text)))
              \<subseteq> {v. truthy v \<and> (\<exists>m. Some m \<in> set metadatas \<and> map_of m ''source'' = Some v)}"
      by (simp add: shown kept_sources_set [symmetric])
    from urls show "num_of ` set (shown_sources (out_events (chat_turn (agent_libs fuel llm u lc) u ui s user_text)))
              = num_of ` {v. truthy v \<and> (\<exists>m. Some m \<in> set metadatas \<and> map_of m ''source'' = Some v)}"
      by (simp add: shown kept_sources_set [symmetric])
    from urls show "sorted (map num_of
                 (shown_sources (out_events (chat_turn (agent_libs fuel llm u lc) u ui s user_text))))"
      by (simp add: shown)
    from urls show "distinct (map num_of
                 (shown_sources (out_events (chat_turn (agent_libs fuel llm u lc) u ui s user_text))))"
      by (simp add: shown)
  }
  {
    assume mixed: "list_ex is_str (kept_sources metadatas) \<and> list_ex (\<lambda>v. \<not> is_str v) (kept_sources metadatas)"
    then have err: "source_urls_of metadatas
           = Inl (Exn ''TypeError'' ''< not supported between instances of str and a number'')"
      by (simp add: source_urls_mixed)
    show "out_control (chat_turn (agent_libs fuel llm u lc) u ui s user_text) = Completed"
      by (rule agent_turn_sources(1) [OF assms])
    from err show "shown_sources (out_events (chat_turn (agent_libs fuel llm u lc) u ui s user_text)) = []"
      by (simp add: shown)
    from agent_turn_sources(3) [OF assms err, where lc = lc]
    show "last (out_events (chat_turn (agent_libs fuel llm u lc) u ui s user_text))
                = StError (''Error retrieving sources: ''
                           @ ''< not supported between instances of str and a number'')"
      by simp
  }
qed

theorem turn_shows_sources_witness:
  "agent_deps demo_state = Some demo_deps
   \<and> messages demo_state = Some [ModelRequest [UserPromptPart ''earlier'']]
   \<and> agent_loop 5 asks_twice demo_utils demo_deps (selected_temperature demo_ui)
        [ModelRequest [UserPromptPart ''earlier'']] [ModelRequest [UserPromptPart ''q'']] []
       = Some asked_twice_run
   \<and> stream_failure asked_twice_run = None
   \<and> get_or_create_collection demo_utils (chroma_client demo_deps) (collection_name demo_deps)
        (embedding_model demo_deps) = Inr ''docs''
   \<and> query_collection demo_utils ''docs'' ''q'' (n_results_to_retrieve demo_ui) = Inr demo_results
   \<and> first_row (qr_metadatas demo_results) = Inr demo_metadatas
   \<and> list_all is_str (kept_sources demo_metadatas)
   \<and> shown_sources (out_events (chat_turn asking_libs demo_utils demo_ui demo_state ''q''))
       = [MStr ''a.md'', MStr ''b.md'']
   \<and> sorted (map str_of (shown_sources (out_events (chat_turn asking_libs demo_utils demo_ui demo_state ''q''))))
   \<and> distinct (shown_sources (out_events (chat_turn asking_libs demo_utils demo_ui demo_state ''q'')))"
proof -
  have h1: "agent_deps demo_state = Some demo_deps"
    by (simp add: demo_state_def)
  have h2: "messages demo_state = Some [ModelRequest [UserPromptPart ''earlier'']]"
    by (simp add: demo_state_def)
  have h3: "agent_loop 5 asks_twice demo_utils demo_deps (selected_temperature demo_ui)
              [ModelRequest [UserPromptPart ''earlier'']] [ModelRequest [UserPromptPart ''q'']] []
            = Some asked_twice_run"
    using asking_run by (simp add: demo_ui_def)
  have h4: "stream_failure asked_twice_run = None"
    by (simp add: asked_twice_run_def)
  have h5: "get_or_create_collection demo_utils (chroma_client demo_deps) (collection_name demo_deps)
              (embedding_model demo_deps) = Inr ''docs''"
    by (simp add: demo_utils_def demo_deps_def)
  have h6: "query_collection demo_utils ''docs'' ''q'' (n_results_to_retrieve demo_ui) = Inr demo_results"
    by (simp add: demo_utils_def)
  have h7: "first_row (qr_metadatas demo_results) = Inr demo_metadatas"
    by (simp add: demo_results_def demo_metadatas_def)
  have strs: "list_all is_str (kept_sources demo_metadatas)"
    by (simp add: kept_sources_def demo_metadatas_def source_of_def)
  have shown: "shown_sources (out_events (chat_turn asking_libs demo_utils demo_ui demo_state ''q''))
                 = [MStr ''a.md'', MStr ''b.md'']"
    by (simp add: asking_turn)
  from turn_shows_sources [OF h1 h2 h3 h4 h5 h6 h7, of demo_list_collections] strs
  have "sorted (map str_of (shown_sources (out_events (chat_turn asking_libs demo_utils demo_ui demo_state ''q''))))
      \<and> distinct (shown_sources (out_events (chat_turn asking_libs demo_utils demo_ui demo_state ''q'')))"
    unfolding asking_libs_def by blast
  with h1 h2 h3 h4 h5 h6 h7 strs shown show ?thesis
    by blast
qed

subsection \<open>The retrieval engine\<close>

text \<open>
  C4. For every k of at least 1 and every collection of n items, a result set that
  \<open>query\<close> returns has exactly min(k, n) entries; \<open>query\<close> does return one whenever
  the query text embeds and the index is sound; and on an empty collection what it
  returns is the empty result set, a value and not a failure.
\<close>

theorem query_returns_min:
  "(1 \<le> k \<and> query dist c queryText k = Inr rs \<longrightarrow>
      int (length rs) = min k (int (length (coll_items c))))
   \<and> (coll_embed c queryText = Some qv \<and> coll_index_ok c \<longrightarrow>
        (\<exists>found. query dist c queryText k = Inr found))
   \<and> (1 \<le> k \<and> coll_items c = [] \<and> coll_embed c queryText = Some qv \<and> coll_index_ok c \<longrightarrow>
        query dist c queryText k = Inr [])"
  by (auto simp: query_def split: option.splits if_splits)

theorem query_returns_min_witness:
  "(1::int) \<le> 5
   \<and> query demo_dist demo_collection ''abc'' 5 = Inr demo_ranked
   \<and> int (length demo_ranked) = min 5 (int (length (coll_items demo_collection)))"
proof -
  have run: "query demo_dist demo_collection ''abc'' 5 = Inr demo_ranked"
    by (simp add: query_def demo_collection_def demo_dist_def demo_ranked_def)
  from query_returns_min [of 5 demo_dist demo_collection "''abc''" demo_ranked 3] run
  show ?thesis
    by simp
qed

subsection \<open>The CSV export\<close>

lemma fold_row_update:
  "fold (\<lambda>key r. r(key \<mapsto> g key)) ks row k = (if k \<in> set ks then Some (g k) else row k)"
  by (induction ks arbitrary: row) auto

lemma export_header_sorted_union:
  "ms \<noteq> [] \<Longrightarrow>
   export_header (Some ms) = ''id'' # ''document'' # sorted_list_of_set (set (all_meta_keys ms))"
  by (simp add: export_header_def sorted_meta_keys_def sorted_list_of_set_sort_remdups)

lemma export_row_metadata_cell:
  assumes "i < length ms" and "key \<in> set (all_meta_keys ms)"
    and "key \<noteq> ''id''" and "key \<noteq> ''document''"
  shows "writerow [key] (export_row ids documents (Some ms) i)
           = [case ms ! i of
                None \<Rightarrow> Empty
              | Some m \<Rightarrow> (case map_of m key of None \<Rightarrow> Empty | Some v \<Rightarrow> Val v)]"
proof -
  from assms(1) have nonempty: "ms \<noteq> []"
    by auto
  with assms(2) have in_keys: "key \<in> set (sorted_meta_keys (Some ms))"
    by (simp add: sorted_meta_keys_def)
  show ?thesis
  proof (cases "ms ! i")
    case None
    with assms nonempty show ?thesis
      by (simp add: export_row_def writerow_def Let_def)
  next
    case (Some m)
    show ?thesis
    proof (cases "m = []")
      case True
      with Some assms nonempty show ?thesis
        by (simp add: export_row_def writerow_def Let_def)
    next
      case False
      with Some assms nonempty in_keys show ?thesis
        by (simp add: export_row_def writerow_def Let_def fold_row_update split: option.splits)
    qed
  qed
qed

text \<open>
  C10 holds for the header, and for the cells where no metadata key is \<open>id\<close> or
  \<open>document\<close> (\<open>export_header_sorted_union\<close>, \<open>export_row_metadata_cell\<close>). It fails
  where a metadata key has the name of one of the two fixed columns, since the row
  dictionary keeps one value per name: of two items \<open>a\<close>, with the metadata
  \<open>{"id": "x"}\<close>, and \<open>b\<close>, with none, the row of \<open>a\<close> shows \<open>x\<close> in the id column,
  and the row of \<open>b\<close>, which lacks the key, shows \<open>b\<close> in the column of the metadata
  key rather than an empty cell.
\<close>

theorem export_metadata_key_clash:
  "export_collection_to_csv [''a'', ''b''] (Some [Some ''doc a'', Some ''doc b''])
     (Some [Some [(''id'', ''x'')], None]) False
   = Some (Csv [''id'', ''document'', ''id'']
        [[Val ''x'', Str ''doc a'', Val ''x''], [Str ''b'', Str ''doc b'', Str ''b'']])"
  by (simp add: export_collection_to_csv_def export_header_def sorted_meta_keys_def all_meta_keys_def
        export_row_def writerow_def upt_rec Let_def)

end
